theory Spec2Isabelle
  imports Complex_Main "HOL-Library.AList" "HOL-Library.Log_Nat"
begin

section \<open>LeViT: the hard-swish activation\<close>

text \<open>
  \<^verbatim>\<open>tf.nn.relu6(z)\<close> computes \<open>min(max(z, 0), 6)\<close>; \<^verbatim>\<open>hard_swish\<close> in
  \<^verbatim>\<open>levit/levit.py\<close> is \<^verbatim>\<open>inputs * tf.nn.relu6(inputs + 3) / 6\<close>. Both are read
  here on a single real number (the function is applied elementwise).
\<close>

definition relu6 :: "real \<Rightarrow> real" where
  "relu6 z = min (max z 0) 6"

definition hard_swish :: "real \<Rightarrow> real" where
  "hard_swish inputs = inputs * relu6 (inputs + 3) / 6"

text \<open>The specification's \<open>clamp(z, lo, hi)\<close>.\<close>

definition clamp :: "real \<Rightarrow> real \<Rightarrow> real \<Rightarrow> real" where
  "clamp z lo hi = (if z < lo then lo else if hi < z then hi else z)"

section \<open>LeViT: the multi-head positional embedding\<close>

text \<open>Failures of the Python code and of the tensor library, as values.\<close>

datatype py_error =
  ZeroDivisionError
  | TypeError
  | KeyError
  | ValueError
  | InvalidArgumentError

text \<open>
  \<^verbatim>\<open>int(tf.math.sqrt(float(n)))\<close> is the integer part of the square root and
  \<^verbatim>\<open>int(tf.math.ceil(tf.math.sqrt(float(kk / qq))))\<close> the square root of the
  quotient rounded up; both are computed here exactly, by search:
  \<open>floor_sqrt n\<close> is the least \<open>k\<close> with \<open>n < (k + 1)\<^sup>2\<close>, and
  \<open>ceil_sqrt_div kk qq\<close> the least \<open>s\<close> with \<open>kk \<le> s\<^sup>2 * qq\<close>.
\<close>

definition floor_sqrt :: "nat \<Rightarrow> nat" where
  "floor_sqrt n = (case find (\<lambda>k. n < Suc k * Suc k) [0..<Suc n] of Some k \<Rightarrow> k | None \<Rightarrow> 0)"

definition ceil_sqrt_div :: "nat \<Rightarrow> nat \<Rightarrow> nat" where
  "ceil_sqrt_div kk qq = (case find (\<lambda>s. kk \<le> s * s * qq) [0..<Suc kk] of Some s \<Rightarrow> s | None \<Rightarrow> 0)"

text \<open>
  \<^verbatim>\<open>x, y = tf.meshgrid(range(n), range(n))\<close> followed by
  \<^verbatim>\<open>tf.concat([tf.reshape(x, (-1, 1)), tf.reshape(y, (-1, 1))], axis=-1)\<close>:
  the \<open>n * n\<close> grid points \<open>(x, y)\<close> in row-major order, \<open>x\<close> running fastest.
\<close>

definition meshgrid_points :: "nat \<Rightarrow> (int \<times> int) list" where
  "meshgrid_points n = concat (map (\<lambda>y. map (\<lambda>x. (int x, int y)) [0..<n]) [0..<n])"

text \<open>
  The layer after \<^verbatim>\<open>build\<close>: the trainable table \<^verbatim>\<open>self.bb\<close> of shape
  \<open>(kk_blocks, num_heads)\<close>, as a list of \<open>kk_blocks\<close> rows together with its second
  dimension, and the index tensor \<^verbatim>\<open>self.bb_pos\<close>.
\<close>

record pos_emb =
  bb :: "real list list"
  bb_heads :: nat
  bb_pos :: "int list list"

definition build :: "nat \<times> nat \<times> nat \<Rightarrow> py_error + pos_emb" where
  "build input_shape =
     (case input_shape of (num_heads, qq_blocks, kk_blocks) \<Rightarrow>
        if qq_blocks = 0 then Inl ZeroDivisionError
        else
          let strides = int (ceil_sqrt_div kk_blocks qq_blocks);
              q_blocks_h = floor_sqrt qq_blocks;
              k_blocks_h = floor_sqrt kk_blocks;
              aa = meshgrid_points q_blocks_h;
              bb' = meshgrid_points k_blocks_h;
              cc = map (\<lambda>ii. map (\<lambda>b. (\<bar>fst b - fst ii * strides\<bar>, \<bar>snd b - snd ii * strides\<bar>)) bb') aa
          in Inr \<lparr>bb = replicate kk_blocks (replicate num_heads 0),
                  bb_heads = num_heads,
                  bb_pos = map (\<lambda>ii. map (\<lambda>c. fst c + snd c * int k_blocks_h) ii) cc\<rparr>)"

text \<open>
  \<^verbatim>\<open>tf.gather(params, indices)\<close> along axis 0, for a matrix of indices: an index
  outside \<open>[0, len(params))\<close> is an error.
\<close>

definition gather :: "'a list \<Rightarrow> int list list \<Rightarrow> py_error + 'a list list" where
  "gather params indices =
     (if \<forall>row \<in> set indices. \<forall>i \<in> set row. 0 \<le> i \<and> i < int (length params)
      then Inr (map (\<lambda>row. map (\<lambda>i. params ! nat i) row) indices)
      else Inl InvalidArgumentError)"

text \<open>
  \<^verbatim>\<open>tf.transpose(pos_bias, [2, 0, 1])\<close> of a tensor of shape \<open>(q, k, h)\<close>:
  entry \<open>[n][a][b]\<close> of the result is entry \<open>[a][b][n]\<close> of the argument.
\<close>

definition transpose_201 :: "nat \<Rightarrow> 'a list list list \<Rightarrow> 'a list list list" where
  "transpose_201 h t = map (\<lambda>n. map (\<lambda>row. map (\<lambda>v. v ! n) row) t) [0..<h]"

text \<open>
  The first two lines of \<^verbatim>\<open>call\<close>, which compute \<^verbatim>\<open>pos_bias\<close>; the last line
  adds it to the input, the same bias for every element of the batch.
\<close>

definition call_pos_bias :: "pos_emb \<Rightarrow> py_error + real list list list" where
  "call_pos_bias self =
     (case gather (bb self) (bb_pos self) of
        Inl e \<Rightarrow> Inl e
      | Inr pos_bias \<Rightarrow> Inr (transpose_201 (bb_heads self) pos_bias))"

section \<open>Model surgery: layers, models and cloning\<close>

text \<open>
  Python's \<^verbatim>\<open>s.replace(old, new)\<close>: every non-overlapping occurrence of \<open>old\<close>,
  found from left to right, is replaced.
\<close>

function py_replace :: "string \<Rightarrow> string \<Rightarrow> string \<Rightarrow> string" where
  "py_replace old new [] = (if old = [] then new else [])"
| "py_replace old new (c # cs) =
     (if old = [] then new @ c # py_replace old new cs
      else if take (length old) (c # cs) = old
        then new @ py_replace old new (drop (length old) (c # cs))
      else c # py_replace old new cs)"
  by pat_completeness auto
termination
  by (relation "measure (\<lambda>(old, new, s). length s)") (auto simp: Suc_le_eq)

text \<open>
  A Keras layer, as far as the surgery functions and the builder look at it: its class,
  its name, the constructor arguments and attributes (\<^verbatim>\<open>get_config()\<close>), the
  \<^verbatim>\<open>trainable\<close> flag, the dtype policy, its weight variables (each with the
  initializer that \<^verbatim>\<open>build\<close> runs and its current value, flattened), and the
  positions in \<^verbatim>\<open>model.layers\<close> of the layers whose outputs it is called on.
\<close>

datatype layer_class =
  InputLayer | ZeroPadding2D | Conv2D | DepthwiseConv2D | SeparableConv2D | Dense
  | BatchNormalization | Activation | ReLU | PReLU | Dropout | Add | Lambda
  | GlobalAveragePooling1D | MultiHeadPositionalEmbedding | StochasticDepth
  | TFOpLambda | OtherLayer string

datatype cfg =
  CNone | CBool bool | CInt int | CReal real | CStr string | CL2 real | CList "cfg list"

datatype initializer = Zeros | Ones | Constant real | RandomInit string

record layer =
  cls :: layer_class
  name :: string
  config :: "(string \<times> cfg) list"
  trainable :: bool
  dtype :: string
  weights :: "(initializer \<times> real list) list"
  inbound :: "nat list"

type_synonym model = "layer list"

text \<open>
  A layer constructed without a name gets one from Keras: a function \<open>dn\<close> of the
  class's name stem and of a per-stem counter, which the construction advances.
  Neither is part of this repository, so \<open>dn\<close> is a parameter and the counters are state.
\<close>

type_synonym uids = "string \<Rightarrow> nat"

definition fresh_name :: "(string \<Rightarrow> nat \<Rightarrow> string) \<Rightarrow> string \<Rightarrow> uids \<Rightarrow> string \<times> uids" where
  "fresh_name dn stem u = (dn stem (u stem), u(stem := Suc (u stem)))"

text \<open>Attribute reads, with the constructors' defaults.\<close>

definition cfg_bool :: "layer \<Rightarrow> string \<Rightarrow> bool \<Rightarrow> bool" where
  "cfg_bool l k d = (case map_of (config l) k of Some (CBool b) \<Rightarrow> b | _ \<Rightarrow> d)"

definition cfg_str :: "layer \<Rightarrow> string \<Rightarrow> string \<Rightarrow> string" where
  "cfg_str l k d = (case map_of (config l) k of Some (CStr b) \<Rightarrow> b | _ \<Rightarrow> d)"

definition setattr :: "layer \<Rightarrow> string \<Rightarrow> cfg \<Rightarrow> layer" where
  "setattr l k v = l\<lparr>config := AList.update k v (config l)\<rparr>"

text \<open>
  \<^verbatim>\<open>layer.get_weights()\<close> and \<^verbatim>\<open>layer.set_weights(ws)\<close>; the latter refuses a list
  of another length or with a value of another size.
\<close>

definition get_weights :: "layer \<Rightarrow> real list list" where
  "get_weights l = map snd (weights l)"

definition set_weights :: "layer \<Rightarrow> real list list \<Rightarrow> py_error + layer" where
  "set_weights l ws =
     (if length ws = length (weights l) \<and> list_all2 (\<lambda>w v. length (snd w) = length v) (weights l) ws
      then Inr (l\<lparr>weights := map2 (\<lambda>w v. (fst w, v)) (weights l) ws\<rparr>)
      else Inl ValueError)"

text \<open>
  \<^verbatim>\<open>layer.__class__.from_config(layer.get_config())\<close> followed by \<^verbatim>\<open>build\<close>: a new
  layer of the same class and configuration whose variables hold what their initializers
  produce (\<open>sample d k\<close> stands for the \<open>k\<close>-th number that the random initializer
  \<open>d\<close> draws), not the values of the layer it was configured from.
\<close>

definition initial_value :: "(string \<Rightarrow> nat \<Rightarrow> real) \<Rightarrow> initializer \<Rightarrow> nat \<Rightarrow> real list" where
  "initial_value sample i n =
     (case i of Zeros \<Rightarrow> replicate n 0 | Ones \<Rightarrow> replicate n 1
      | Constant c \<Rightarrow> replicate n c | RandomInit d \<Rightarrow> map (sample d) [0..<n])"

definition from_config_built :: "(string \<Rightarrow> nat \<Rightarrow> real) \<Rightarrow> layer \<Rightarrow> layer" where
  "from_config_built sample l =
     l\<lparr>weights := map (\<lambda>w. (fst w, initial_value sample (fst w) (length (snd w)))) (weights l)\<rparr>"

text \<open>
  \<^verbatim>\<open>keras.models.clone_model(model, input_tensors, clone_function)\<close>: the clone function
  is applied to every layer of \<^verbatim>\<open>model.layers\<close> in order, except the input layers,
  and the layers it returns take the places of the originals in the same graph.
  With \<^verbatim>\<open>input_tensors\<close> given, the input layer is that of the given tensor;
  without, it is a new input layer of the same name. A clone function may fail and may
  construct unnamed layers, so it works on the name counters.
\<close>

type_synonym clone_function = "layer \<Rightarrow> uids \<Rightarrow> py_error + (layer \<times> uids)"

fun clone_layers :: "layer option \<Rightarrow> clone_function \<Rightarrow> layer list \<Rightarrow> uids \<Rightarrow> py_error + (layer list \<times> uids)" where
  "clone_layers input_layer f [] u = Inr ([], u)"
| "clone_layers input_layer f (l # ls) u =
     (case (if cls l = InputLayer
            then Inr (case input_layer of None \<Rightarrow> l | Some i \<Rightarrow> i, u)
            else f l u) of
        Inl e \<Rightarrow> Inl e
      | Inr (l', u') \<Rightarrow>
          (case clone_layers input_layer f ls u' of
             Inl e \<Rightarrow> Inl e
           | Inr (ls', u'') \<Rightarrow> Inr (l'\<lparr>inbound := inbound l\<rparr> # ls', u'')))"

text \<open>\<^verbatim>\<open>keras.layers.Input(model.input_shape[1:])\<close>: a new, unnamed input layer.\<close>

definition Input :: "(string \<Rightarrow> nat \<Rightarrow> string) \<Rightarrow> cfg \<Rightarrow> uids \<Rightarrow> layer \<times> uids" where
  "Input dn shape u =
     (case fresh_name dn ''input'' u of (n, u') \<Rightarrow>
        (\<lparr>cls = InputLayer, name = n, config = [(''shape'', shape)], trainable = True,
          dtype = ''float32'', weights = [], inbound = []\<rparr>, u'))"

definition model_input_shape :: "model \<Rightarrow> cfg" where
  "model_input_shape m = (case find (\<lambda>l. cls l = InputLayer) m of
      Some l \<Rightarrow> (case map_of (config l) ''shape'' of Some s \<Rightarrow> s | None \<Rightarrow> CNone) | None \<Rightarrow> CNone)"

text \<open>The clone function that \<^verbatim>\<open>clone_model\<close> uses when none is given.\<close>

definition default_clone :: "(string \<Rightarrow> nat \<Rightarrow> real) \<Rightarrow> clone_function" where
  "default_clone sample l u = Inr (from_config_built sample l, u)"

section \<open>Model surgery: the L2 regularizer\<close>

text \<open>
  \<^verbatim>\<open>isinstance(layer, C)\<close> is read as "the layer's class is \<open>C\<close>"; which Keras
  classes derive from which is the library's matter.
\<close>

definition regularizer_attrs :: "bool \<Rightarrow> bool \<Rightarrow> layer \<Rightarrow> string list" where
  "regularizer_attrs apply_to_batch_normal apply_to_bias l =
     (if cls l = Dense \<or> cls l = Conv2D then
        [''kernel_regularizer'']
        @ (if apply_to_bias \<and> cfg_bool l ''use_bias'' True then [''bias_regularizer''] else [])
      else if cls l = DepthwiseConv2D then
        [''depthwise_regularizer'']
        @ (if apply_to_bias \<and> cfg_bool l ''use_bias'' True then [''bias_regularizer''] else [])
      else if cls l = SeparableConv2D then
        [''pointwise_regularizer'', ''depthwise_regularizer'']
        @ (if apply_to_bias \<and> cfg_bool l ''use_bias'' True then [''bias_regularizer''] else [])
      else if apply_to_batch_normal \<and> cls l = BatchNormalization then
        (if cfg_bool l ''center'' True then [''beta_regularizer''] else [])
        @ (if cfg_bool l ''scale'' True then [''gamma_regularizer''] else [])
      else if apply_to_batch_normal \<and> cls l = PReLU then [''alpha_regularizer'']
      else [])"

text \<open>
  The loop body for one layer: the layers named have all the attributes listed, so
  \<^verbatim>\<open>hasattr\<close> holds, and \<^verbatim>\<open>keras.regularizers.L2(weight_decay / 2)\<close> is set on a
  trainable layer.
\<close>

definition set_regularizers :: "real \<Rightarrow> bool \<Rightarrow> bool \<Rightarrow> layer \<Rightarrow> layer" where
  "set_regularizers weight_decay apply_to_batch_normal apply_to_bias l =
     fold (\<lambda>attr l. if trainable l then setattr l attr (CL2 (weight_decay / 2)) else l)
       (regularizer_attrs apply_to_batch_normal apply_to_bias l) l"

text \<open>
  The function mutates the layers of its argument and returns
  \<^verbatim>\<open>keras.models.clone_model(model)\<close>: no input tensors, the default clone function.
\<close>

definition add_l2_regularizer_2_model ::
  "(string \<Rightarrow> nat \<Rightarrow> real) \<Rightarrow> model \<Rightarrow> real \<Rightarrow> bool \<Rightarrow> bool \<Rightarrow> uids \<Rightarrow> py_error + (model \<times> uids)" where
  "add_l2_regularizer_2_model sample model weight_decay apply_to_batch_normal apply_to_bias u =
     clone_layers None (default_clone sample)
       (map (set_regularizers weight_decay apply_to_batch_normal apply_to_bias) model) u"

section \<open>Model surgery: replacing ReLU\<close>

text \<open>
  \<^verbatim>\<open>target_activation\<close> is a string or a layer class; of the class, its
  \<^verbatim>\<open>__name__\<close> and the stem of the names Keras gives to its unnamed instances matter.
  Passing a keyword twice, once explicitly and once in \<^verbatim>\<open>**kwargs\<close>, is a TypeError.
\<close>

datatype target_activation = TargetStr string | TargetClass string string

definition is_relu :: "layer \<Rightarrow> bool" where
  "is_relu l \<longleftrightarrow> cls l = ReLU \<or> (cls l = Activation \<and> cfg_str l ''activation'' [] = ''relu'')"

definition new_layer :: "layer_class \<Rightarrow> string \<Rightarrow> (string \<times> cfg) list \<Rightarrow> layer" where
  "new_layer c n conf =
     \<lparr>cls = c, name = n, config = conf, trainable = True, dtype = ''float32'', weights = [], inbound = []\<rparr>"

definition convert_ReLU ::
  "(string \<Rightarrow> nat \<Rightarrow> string) \<Rightarrow> target_activation \<Rightarrow> (string \<times> cfg) list \<Rightarrow> clone_function" where
  "convert_ReLU dn target kwargs l u =
     (if is_relu l then
        (case target of
           TargetStr t \<Rightarrow>
             if t = ''PReLU'' then
               let layer_name = py_replace ''_relu'' ''_prelu'' (name l)
               in if \<exists>k \<in> {''shared_axes'', ''alpha_initializer'', ''name''}. k \<in> fst ` set kwargs
                  then Inl TypeError
                  else Inr (new_layer PReLU layer_name
                         ([(''shared_axes'', CList [CInt 1, CInt 2]), (''alpha_initializer'', CReal 0.25)]
                          @ kwargs), u)
             else
               let layer_name = py_replace ''_relu'' (''_'' @ t) (name l)
               in if \<exists>k \<in> {''activation'', ''name''}. k \<in> fst ` set kwargs
                  then Inl TypeError
                  else Inr (new_layer Activation layer_name ([(''activation'', CStr t)] @ kwargs), u)
         | TargetClass act_class_name stem \<Rightarrow>
             let layer_name = py_replace ''_relu'' (''_'' @ act_class_name) (name l)
             in (case map_of kwargs ''name'' of
                   Some (CStr n) \<Rightarrow> Inr (new_layer (OtherLayer act_class_name) n kwargs, u)
                 | _ \<Rightarrow>
                     (case fresh_name dn stem u of (n, u') \<Rightarrow>
                        Inr (new_layer (OtherLayer act_class_name) n kwargs, u'))))
      else Inr (l, u))"

definition replace_ReLU ::
  "(string \<Rightarrow> nat \<Rightarrow> string) \<Rightarrow> model \<Rightarrow> target_activation \<Rightarrow> (string \<times> cfg) list \<Rightarrow> uids
     \<Rightarrow> py_error + (model \<times> uids)" where
  "replace_ReLU dn model target kwargs u =
     (case Input dn (model_input_shape model) u of (input_tensors, u') \<Rightarrow>
        clone_layers (Some input_tensors) (convert_ReLU dn target kwargs) model u')"

section \<open>Model surgery: stochastic depth\<close>

text \<open>
  \<^verbatim>\<open>survivals\<close> is a Python number or a list or tuple of numbers. A float is known
  by the real number it is, and comparing floats is exact; what the float operations
  return is Python's matter, so subtraction, multiplication, division and the conversion
  \<^verbatim>\<open>float(i)\<close> of an integer are parameters. An operation on two integers is exact
  and gives an integer, an operation with a float converts the other operand.
  \<^verbatim>\<open>zip\<close> refuses a number, whatever the length of the other argument.
\<close>

datatype py_num = PyInt int | PyFloat real

datatype survivals_arg = Single py_num | Seq "py_num list"

fun to_real :: "py_num \<Rightarrow> real" where
  "to_real (PyInt i) = of_int i"
| "to_real (PyFloat r) = r"

definition isinstance_Add :: "layer \<Rightarrow> bool" where
  "isinstance_Add l \<longleftrightarrow> cls l = Add"

record py_float_ops =
  f_sub :: "real \<Rightarrow> real \<Rightarrow> real"
  f_mul :: "real \<Rightarrow> real \<Rightarrow> real"
  f_div :: "real \<Rightarrow> real \<Rightarrow> real"
  f_of_int :: "int \<Rightarrow> real"

definition to_float :: "py_float_ops \<Rightarrow> py_num \<Rightarrow> real" where
  "to_float F n = (case n of PyInt i \<Rightarrow> f_of_int F i | PyFloat x \<Rightarrow> x)"

definition py_sub :: "py_float_ops \<Rightarrow> py_num \<Rightarrow> py_num \<Rightarrow> py_num" where
  "py_sub F a b =
     (case (a, b) of
        (PyInt i, PyInt j) \<Rightarrow> PyInt (i - j)
      | _ \<Rightarrow> PyFloat (f_sub F (to_float F a) (to_float F b)))"

definition py_mul :: "py_float_ops \<Rightarrow> py_num \<Rightarrow> py_num \<Rightarrow> py_num" where
  "py_mul F a b =
     (case (a, b) of
        (PyInt i, PyInt j) \<Rightarrow> PyInt (i * j)
      | _ \<Rightarrow> PyFloat (f_mul F (to_float F a) (to_float F b)))"

text \<open>\<^verbatim>\<open>a / b\<close> for a float \<open>a\<close> and a divisor that is not zero.\<close>

definition py_div :: "py_float_ops \<Rightarrow> py_num \<Rightarrow> py_num \<Rightarrow> py_num" where
  "py_div F a b = PyFloat (f_div F (to_float F a) (to_float F b))"

text \<open>\<^verbatim>\<open>start - (1 - end) * float(ii) / total_adds\<close>.\<close>

definition linear_survival :: "py_float_ops \<Rightarrow> py_num \<Rightarrow> py_num \<Rightarrow> nat \<Rightarrow> nat \<Rightarrow> py_num" where
  "linear_survival F start end ii total_adds =
     py_sub F start
       (py_div F (py_mul F (py_sub F (PyInt 1) end) (PyFloat (f_of_int F (int ii))))
          (PyInt (int total_adds)))"

definition resolve_survivals :: "py_float_ops \<Rightarrow> survivals_arg \<Rightarrow> nat \<Rightarrow> py_error + real list" where
  "resolve_survivals F survivals total_adds =
     (case survivals of
        Single (PyFloat p) \<Rightarrow> Inr (replicate total_adds p)
      | Single (PyInt i) \<Rightarrow> Inl TypeError
      | Seq [start, end] \<Rightarrow>
          Inr (map (\<lambda>ii. to_real (linear_survival F start end ii total_adds)) [0..<total_adds])
      | Seq xs \<Rightarrow> Inr (map to_real xs))"

text \<open>\<^verbatim>\<open>dict(zip(keys, values))\<close>: a later pair with the same key wins.\<close>

definition dict_zip :: "'k list \<Rightarrow> 'v list \<Rightarrow> ('k \<rightharpoonup> 'v)" where
  "dict_zip ks vs = map_of (rev (zip ks vs))"

definition replace_add_layer :: "(string \<rightharpoonup> real) \<Rightarrow> clone_function" where
  "replace_add_layer survivals_dict l u =
     (if isinstance_Add l then
        let layer_name = name l;
            new_layer_name = py_replace ''_add'' ''_stochastic_depth'' layer_name;
            new_layer_name = py_replace ''add_'' ''stochastic_depth_'' layer_name
        in (case survivals_dict layer_name of
              None \<Rightarrow> Inl KeyError
            | Some survival_probability \<Rightarrow>
                if survival_probability < 1
                then Inr (new_layer StochasticDepth new_layer_name
                            [(''survival_probability'', CReal survival_probability)], u)
                else Inr (l, u))
      else Inr (l, u))"

definition replace_add_with_stochastic_depth ::
  "py_float_ops \<Rightarrow> (string \<Rightarrow> nat \<Rightarrow> string) \<Rightarrow> model \<Rightarrow> survivals_arg \<Rightarrow> uids
     \<Rightarrow> py_error + (model \<times> uids)" where
  "replace_add_with_stochastic_depth F dn model survivals u =
     (let add_layers = map name (filter isinstance_Add model);
          total_adds = length add_layers
      in case resolve_survivals F survivals total_adds of
           Inl e \<Rightarrow> Inl e
         | Inr survivals \<Rightarrow>
             let survivals_dict = dict_zip add_layers survivals
             in (case Input dn (model_input_shape model) u of (input_tensors, u') \<Rightarrow>
                   clone_layers (Some input_tensors) (replace_add_layer survivals_dict) model u'))"

section \<open>Model surgery: mixed precision\<close>

definition with_dtype :: "(string \<Rightarrow> nat \<Rightarrow> real) \<Rightarrow> string \<Rightarrow> layer \<Rightarrow> py_error + layer" where
  "with_dtype sample policy l =
     (let aa = l\<lparr>dtype := policy\<rparr>;
          bb' = from_config_built sample aa
      in set_weights bb' (get_weights l))"

definition is_linear_activation :: "layer \<Rightarrow> bool" where
  "is_linear_activation l \<longleftrightarrow> cls l = Activation \<and> cfg_str l ''activation'' [] = ''linear''"

definition do_convert_to_mixed_float16 :: "(string \<Rightarrow> nat \<Rightarrow> real) \<Rightarrow> bool \<Rightarrow> clone_function" where
  "do_convert_to_mixed_float16 sample convert_batch_norm l u =
     (if \<not> convert_batch_norm \<and> cls l = BatchNormalization then Inr (l, u)
      else if cls l \<noteq> InputLayer \<and> \<not> is_linear_activation l then
        (case with_dtype sample ''mixed_float16'' l of Inl e \<Rightarrow> Inl e | Inr bb' \<Rightarrow> Inr (bb', u))
      else Inr (l, u))"

definition convert_to_mixed_float16 ::
  "(string \<Rightarrow> nat \<Rightarrow> string) \<Rightarrow> (string \<Rightarrow> nat \<Rightarrow> real) \<Rightarrow> model \<Rightarrow> bool \<Rightarrow> uids
     \<Rightarrow> py_error + (model \<times> uids)" where
  "convert_to_mixed_float16 dn sample model convert_batch_norm u =
     (case Input dn (model_input_shape model) u of (input_tensors, u') \<Rightarrow>
        clone_layers (Some input_tensors) (do_convert_to_mixed_float16 sample convert_batch_norm) model u')"

definition do_convert_to_float32 :: "(string \<Rightarrow> nat \<Rightarrow> real) \<Rightarrow> clone_function" where
  "do_convert_to_float32 sample l u =
     (if cls l \<noteq> InputLayer \<and> \<not> is_linear_activation l then
        (case with_dtype sample ''float32'' l of Inl e \<Rightarrow> Inl e | Inr bb' \<Rightarrow> Inr (bb', u))
      else Inr (l, u))"

definition convert_mixed_float16_to_float32 ::
  "(string \<Rightarrow> nat \<Rightarrow> string) \<Rightarrow> (string \<Rightarrow> nat \<Rightarrow> real) \<Rightarrow> model \<Rightarrow> uids
     \<Rightarrow> py_error + (model \<times> uids)" where
  "convert_mixed_float16_to_float32 dn sample model u =
     (case Input dn (model_input_shape model) u of (input_tensors, u') \<Rightarrow>
        clone_layers (Some input_tensors) (do_convert_to_float32 sample) model u')"

section \<open>A small model and a naming scheme, for concrete runs\<close>

text \<open>Python's \<^verbatim>\<open>str(n)\<close> for a natural number.\<close>

fun str_nat :: "nat \<Rightarrow> string" where
  "str_nat n =
     (if n < 10 then [char_of (48 + n)] else str_nat (n div 10) @ [char_of (48 + n mod 10)])"

text \<open>
  Keras names the first unnamed object of a kind by the stem alone and the later ones
  by stem, underscore and count.
\<close>

definition keras_names :: "string \<Rightarrow> nat \<Rightarrow> string" where
  "keras_names stem n = (if n = 0 then stem else stem @ ''_'' @ str_nat n)"

definition no_uids :: uids where
  "no_uids stem = 0"

definition zero_sample :: "string \<Rightarrow> nat \<Rightarrow> real" where
  "zero_sample d k = 0"

text \<open>
  An input of four features, a dense layer with trained kernel and bias, a ReLU, and
  the sum of the two.
\<close>

definition example_model :: model where
  "example_model =
     [\<lparr>cls = InputLayer, name = ''input_1'', config = [(''shape'', CList [CInt 4])],
        trainable = True, dtype = ''float32'', weights = [], inbound = []\<rparr>,
      \<lparr>cls = Dense, name = ''head'', config = [(''units'', CInt 1), (''use_bias'', CBool True)],
        trainable = True, dtype = ''float32'',
        weights = [(RandomInit ''glorot_uniform'', [1, 2, 3, 4]), (Zeros, [5])], inbound = [0]\<rparr>,
      \<lparr>cls = ReLU, name = ''head_relu'', config = [],
        trainable = True, dtype = ''float32'', weights = [], inbound = [1]\<rparr>,
      \<lparr>cls = Add, name = ''head_add'', config = [],
        trainable = True, dtype = ''float32'', weights = [], inbound = [1, 2]\<rparr>]"

text \<open>
  Exact arithmetic. On the halves, quarters and eighths of the runs below, binary64
  computes the same numbers.
\<close>

definition exact_floats :: py_float_ops where
  "exact_floats = \<lparr>f_sub = (-), f_mul = (*), f_div = (/), f_of_int = of_int\<rparr>"

text \<open>
  An input, a dense layer, and three additions one after the other, the second with a
  name that has \<^verbatim>\<open>add_\<close> in it.
\<close>

definition three_add_model :: model where
  "three_add_model =
     [\<lparr>cls = InputLayer, name = ''input_1'', config = [(''shape'', CList [CInt 4])],
        trainable = True, dtype = ''float32'', weights = [], inbound = []\<rparr>,
      \<lparr>cls = Add, name = ''block1_add'', config = [],
        trainable = True, dtype = ''float32'', weights = [], inbound = [0, 0]\<rparr>,
      \<lparr>cls = Dense, name = ''dense'', config = [(''units'', CInt 4)],
        trainable = True, dtype = ''float32'',
        weights = [(RandomInit ''glorot_uniform'', replicate 16 1), (Zeros, replicate 4 0)],
        inbound = [1]\<rparr>,
      \<lparr>cls = Add, name = ''add_2'', config = [],
        trainable = True, dtype = ''float32'', weights = [], inbound = [1, 2]\<rparr>,
      \<lparr>cls = Add, name = ''block3_add'', config = [],
        trainable = True, dtype = ''float32'', weights = [], inbound = [2, 3]\<rparr>]"

section \<open>LeViT: building the graph\<close>

text \<open>
  The builder calls Keras layers and TensorFlow operations on symbolic tensors; every
  call adds a layer to the graph under construction. A symbolic tensor is known by the
  layer that produces it (its position among the layers created so far), by which of that
  layer's outputs it is, and by its shape without the batch dimension. The graph under
  construction is the list of layers created so far, in creation order, together with
  Keras's counters and scheme for the names of unnamed layers. The variables of the
  layers are left out (\<open>weights = []\<close>): their values come from initializers and from
  the pretrained file. \<^verbatim>\<open>K.image_data_format()\<close> is taken at its default,
  \<^verbatim>\<open>channels_last\<close>, and the hyperparameters are natural numbers.
\<close>

record tensor =
  producer :: nat
  port :: nat
  shape :: "nat list"

record graph =
  g_layers :: "layer list"
  g_uids :: uids
  g_names :: "string \<Rightarrow> nat \<Rightarrow> string"

type_synonym 'a build = "graph \<Rightarrow> py_error + ('a \<times> graph)"

definition ret :: "'a \<Rightarrow> 'a build" where
  "ret a g = Inr (a, g)"

definition raise :: "py_error \<Rightarrow> 'a build" where
  "raise e g = Inl e"

definition then_do :: "'a build \<Rightarrow> ('a \<Rightarrow> 'b build) \<Rightarrow> 'b build" where
  "then_do m f g = (case m g of Inl e \<Rightarrow> Inl e | Inr (a, g') \<Rightarrow> f a g')"

fun for_each :: "('i \<Rightarrow> 'a \<Rightarrow> 'a build) \<Rightarrow> 'i list \<Rightarrow> 'a \<Rightarrow> 'a build" where
  "for_each body [] a = ret a"
| "for_each body (i # is) a = then_do (body i a) (for_each body is)"

text \<open>Calling a named layer, an unnamed layer, or a TensorFlow operation.\<close>

definition call_layer ::
  "layer_class \<Rightarrow> string \<Rightarrow> (string \<times> cfg) list \<Rightarrow> tensor list \<Rightarrow> nat list \<Rightarrow> tensor build" where
  "call_layer c n conf inputs out_shape g =
     Inr (\<lparr>producer = length (g_layers g), port = 0, shape = out_shape\<rparr>,
          g\<lparr>g_layers := g_layers g @
               [\<lparr>cls = c, name = n, config = conf, trainable = True, dtype = ''float32'',
                 weights = [], inbound = map producer inputs\<rparr>]\<rparr>)"

definition call_unnamed ::
  "layer_class \<Rightarrow> string \<Rightarrow> (string \<times> cfg) list \<Rightarrow> tensor list \<Rightarrow> nat list \<Rightarrow> tensor build" where
  "call_unnamed c stem conf inputs out_shape g =
     (case fresh_name (g_names g) stem (g_uids g) of (n, u') \<Rightarrow>
        call_layer c n conf inputs out_shape (g\<lparr>g_uids := u'\<rparr>))"

definition tf_op :: "string \<Rightarrow> (string \<times> cfg) list \<Rightarrow> tensor list \<Rightarrow> nat list \<Rightarrow> tensor build" where
  "tf_op opname conf inputs out_shape = call_unnamed TFOpLambda opname conf inputs out_shape"

definition cfg_shape :: "nat list \<Rightarrow> cfg" where
  "cfg_shape ns = CList (map (\<lambda>n. CInt (int n)) ns)"

text \<open>The layers and operations used, with their output shapes.\<close>

definition Input_layer :: "nat list \<Rightarrow> tensor build" where
  "Input_layer input_shape = call_unnamed InputLayer ''input'' [(''shape'', cfg_shape input_shape)] [] input_shape"

definition ZeroPadding2D_call :: "nat \<Rightarrow> tensor \<Rightarrow> tensor build" where
  "ZeroPadding2D_call p x =
     (case shape x of
        [h, w, c] \<Rightarrow> call_unnamed ZeroPadding2D ''zero_padding2d'' [(''padding'', CInt (int p))] [x]
                       [h + 2 * p, w + 2 * p, c]
      | _ \<Rightarrow> raise ValueError)"

definition Conv2D_call ::
  "nat \<Rightarrow> nat \<Rightarrow> nat \<Rightarrow> bool \<Rightarrow> string \<Rightarrow> tensor \<Rightarrow> tensor build" where
  "Conv2D_call filters kernel_size strides use_bias n x =
     (case shape x of
        [h, w, c] \<Rightarrow>
          if h < kernel_size \<or> w < kernel_size \<or> strides = 0 then raise ValueError
          else call_layer Conv2D n
                 [(''filters'', CInt (int filters)), (''kernel_size'', CInt (int kernel_size)),
                  (''strides'', CInt (int strides)), (''padding'', CStr ''VALID''),
                  (''use_bias'', CBool use_bias), (''kernel_initializer'', CStr ''CONV_KERNEL_INITIALIZER'')]
                 [x] [(h - kernel_size) div strides + 1, (w - kernel_size) div strides + 1, filters]
      | _ \<Rightarrow> raise ValueError)"

definition Dense_call :: "nat \<Rightarrow> (string \<times> cfg) list \<Rightarrow> string \<Rightarrow> tensor \<Rightarrow> tensor build" where
  "Dense_call units conf n x =
     (if shape x = [] then raise ValueError
      else call_layer Dense n ((''units'', CInt (int units)) # conf) [x] (butlast (shape x) @ [units]))"

definition same_shape_layer ::
  "layer_class \<Rightarrow> string \<Rightarrow> (string \<times> cfg) list \<Rightarrow> tensor \<Rightarrow> tensor build" where
  "same_shape_layer c n conf x = call_layer c n conf [x] (shape x)"

definition reshape :: "tensor \<Rightarrow> nat list \<Rightarrow> tensor build" where
  "reshape x new_shape = tf_op ''tf.reshape'' [(''shape'', cfg_shape new_shape)] [x] new_shape"

definition transpose_0213 :: "tensor \<Rightarrow> tensor build" where
  "transpose_0213 x =
     (case shape x of
        [a, b, c] \<Rightarrow> tf_op ''tf.compat.v1.transpose'' [(''perm'', cfg_shape [0, 2, 1, 3])] [x] [b, a, c]
      | _ \<Rightarrow> raise ValueError)"

definition split_last :: "tensor \<Rightarrow> nat list \<Rightarrow> tensor list build" where
  "split_last x sizes =
     (if shape x = [] \<or> sum_list sizes \<noteq> last (shape x) then raise ValueError
      else then_do (tf_op ''tf.split'' [(''num_or_size_splits'', cfg_shape sizes)] [x] (shape x))
             (\<lambda>t. ret (map (\<lambda>(i, s). t\<lparr>port := i, shape := butlast (shape x) @ [s]\<rparr>)
                            (zip [0..<length sizes] sizes))))"

text \<open>
  \<^verbatim>\<open>x[:, ::strides, ::strides, :]\<close>: every \<open>strides\<close>-th row and column; a step of
  zero is refused.
\<close>

definition strided_slice :: "tensor \<Rightarrow> nat \<Rightarrow> tensor build" where
  "strided_slice x strides =
     (case shape x of
        [h, w, c] \<Rightarrow>
          if strides = 0 then raise ValueError
          else tf_op ''tf.__operators__.getitem'' [(''step'', CInt (int strides))] [x]
                 [(h + strides - 1) div strides, (w + strides - 1) div strides, c]
      | _ \<Rightarrow> raise ValueError)"

text \<open>Python's \<^verbatim>\<open>s.upper()\<close> on ASCII letters.\<close>

definition py_upper :: "string \<Rightarrow> string" where
  "py_upper s =
     map (\<lambda>c. let k = (of_char c :: nat) in if 97 \<le> k \<and> k \<le> 122 then char_of (k - 32) else c) s"

subsection \<open>The functions of \<^verbatim>\<open>levit.py\<close>\<close>

definition batchnorm_with_activation ::
  "tensor \<Rightarrow> string option \<Rightarrow> bool \<Rightarrow> string \<Rightarrow> tensor build" where
  "batchnorm_with_activation inputs activation zero_gamma n =
     then_do (same_shape_layer BatchNormalization (n @ ''bn'')
                [(''axis'', CInt (- 1)), (''momentum'', CReal 0.9), (''epsilon'', CReal 0.00001),
                 (''gamma_initializer'', CStr (if zero_gamma then ''zeros'' else ''ones''))] inputs)
       (\<lambda>nn. case activation of
            None \<Rightarrow> ret nn
          | Some a \<Rightarrow>
              if a = ''hard_swish'' then
                same_shape_layer Activation (n @ a) [(''activation'', CStr ''hard_swish'')] nn
              else if a \<noteq> [] then
                same_shape_layer Activation (n @ a) [(''activation'', CStr a)] nn
              else ret nn)"

definition conv2d_no_bias ::
  "tensor \<Rightarrow> nat \<Rightarrow> nat \<Rightarrow> nat \<Rightarrow> string \<Rightarrow> bool \<Rightarrow> string \<Rightarrow> tensor build" where
  "conv2d_no_bias inputs filters kernel_size strides padding use_bias n =
     then_do (if py_upper padding = ''SAME'' then ZeroPadding2D_call (kernel_size div 2) inputs
              else ret inputs)
       (\<lambda>inputs. Conv2D_call filters kernel_size strides use_bias (n @ ''conv'') inputs)"

definition scaled_dot_product_attention ::
  "tensor \<Rightarrow> tensor \<Rightarrow> tensor \<Rightarrow> nat \<Rightarrow> nat \<Rightarrow> nat \<Rightarrow> string option \<Rightarrow> string \<Rightarrow> tensor build" where
  "scaled_dot_product_attention qq kk vv key_dim attn_ratio output_dim activation n =
     (case (shape qq, shape kk, shape vv) of
        ([heads, q_blocks, _], [_, k_blocks, _], [_, _, v_dim]) \<Rightarrow>
          then_do (call_unnamed Lambda ''lambda'' [] [qq, kk] [heads, q_blocks, k_blocks]) (\<lambda>attn.
          then_do (tf_op ''tf.math.truediv'' [(''y'', CStr ''sqrt(key_dim)''), (''key_dim'', CInt (int key_dim))]
                     [attn] (shape attn)) (\<lambda>attn.
          then_do (case build (heads, q_blocks, k_blocks) of
                     Inl e \<Rightarrow> raise e
                   | Inr _ \<Rightarrow> same_shape_layer MultiHeadPositionalEmbedding (n @ ''attn_pos'') [] attn) (\<lambda>attn.
          then_do (tf_op ''tf.nn.softmax'' [(''axis'', CInt (- 1))] [attn] (shape attn)) (\<lambda>attn.
          then_do (call_unnamed Lambda ''lambda'' [] [attn, vv] [heads, q_blocks, v_dim]) (\<lambda>output.
          then_do (transpose_0213 output) (\<lambda>output.
          then_do (reshape output [q_blocks, heads * v_dim]) (\<lambda>output.
          then_do (case activation of
                     None \<Rightarrow> ret output
                   | Some a \<Rightarrow>
                       if a = ''hard_swish'' then
                         same_shape_layer Activation (n @ ''out_'' @ a) [(''activation'', CStr ''hard_swish'')] output
                       else if a \<noteq> [] then
                         same_shape_layer Activation (n @ ''out_'' @ a) [(''activation'', CStr a)] output
                       else ret output) (\<lambda>output.
          then_do (Dense_call output_dim [(''use_bias'', CBool False)] (n @ ''out'') output) (\<lambda>output.
          batchnorm_with_activation output None True (n @ ''out_''))))))))))
      | _ \<Rightarrow> raise ValueError)"

definition mhsa_with_multi_head_position ::
  "tensor \<Rightarrow> nat \<Rightarrow> nat \<Rightarrow> nat \<Rightarrow> nat \<Rightarrow> string option \<Rightarrow> string \<Rightarrow> tensor build" where
  "mhsa_with_multi_head_position inputs output_dim num_heads key_dim attn_ratio activation n =
     (case shape inputs of
        [blocks, _] \<Rightarrow>
          let embed_dim = key_dim * num_heads;
              qkv_dim = (attn_ratio + 1 + 1) * embed_dim
          in then_do (Dense_call qkv_dim [(''use_bias'', CBool False)] (n @ ''qkv'') inputs) (\<lambda>qkv.
             then_do (batchnorm_with_activation qkv None False (n @ ''qkv_'')) (\<lambda>qkv.
             if num_heads = 0 then raise ZeroDivisionError
             else
             then_do (reshape qkv [blocks, num_heads, qkv_dim div num_heads]) (\<lambda>qkv.
             then_do (transpose_0213 qkv) (\<lambda>qkv.
             then_do (split_last qkv [key_dim, key_dim, key_dim * attn_ratio]) (\<lambda>qkv.
             case qkv of
               [qq, kk, vv] \<Rightarrow>
                 scaled_dot_product_attention qq kk vv key_dim attn_ratio output_dim activation n
             | _ \<Rightarrow> raise ValueError)))))
      | _ \<Rightarrow> raise ValueError)"

definition mhsa_with_multi_head_position_and_strides ::
  "tensor \<Rightarrow> nat \<Rightarrow> nat \<Rightarrow> nat \<Rightarrow> nat \<Rightarrow> nat \<Rightarrow> string option \<Rightarrow> string \<Rightarrow> tensor build" where
  "mhsa_with_multi_head_position_and_strides inputs output_dim num_heads key_dim attn_ratio strides activation n =
     (case shape inputs of
        [blocks, channel] \<Rightarrow>
          let embed_dim = key_dim * num_heads
          in then_do (if strides \<noteq> 1 then
                        let width = floor_sqrt blocks
                        in then_do (reshape inputs [width, width, channel]) (\<lambda>qq.
                           then_do (strided_slice qq strides) (\<lambda>qq.
                           reshape qq [shape qq ! 0 * shape qq ! 1, channel]))
                      else ret inputs) (\<lambda>qq.
             then_do (Dense_call embed_dim [(''use_bias'', CBool False)] (n @ ''q'') qq) (\<lambda>qq.
             then_do (batchnorm_with_activation qq None False (n @ ''q_'')) (\<lambda>qq.
             then_do (reshape qq [shape qq ! 0, num_heads, key_dim]) (\<lambda>qq.
             then_do (transpose_0213 qq) (\<lambda>qq.
             let kv_dim = (attn_ratio + 1) * embed_dim
             in then_do (Dense_call kv_dim [(''use_bias'', CBool False)] (n @ ''kv'') inputs) (\<lambda>kv.
                then_do (batchnorm_with_activation kv None False (n @ ''kv_'')) (\<lambda>kv.
                if num_heads = 0 then raise ZeroDivisionError
                else
                then_do (reshape kv [blocks, num_heads, kv_dim div num_heads]) (\<lambda>kv.
                then_do (transpose_0213 kv) (\<lambda>kv.
                then_do (split_last kv [key_dim, key_dim * attn_ratio]) (\<lambda>kv.
                case kv of
                  [kk, vv] \<Rightarrow>
                    scaled_dot_product_attention qq kk vv key_dim attn_ratio output_dim activation n
                | _ \<Rightarrow> raise ValueError))))))))))
      | _ \<Rightarrow> raise ValueError)"

definition Dropout_call :: "real \<Rightarrow> string \<Rightarrow> tensor \<Rightarrow> tensor build" where
  "Dropout_call rate n x =
     same_shape_layer Dropout n [(''rate'', CReal rate), (''noise_shape'', CList [CNone, CInt 1, CInt 1])] x"

definition Add_call :: "string \<Rightarrow> tensor \<Rightarrow> tensor \<Rightarrow> tensor build" where
  "Add_call n a b = call_layer Add n [] [a, b] (shape a)"

definition res_mhsa_with_multi_head_position ::
  "tensor \<Rightarrow> nat \<Rightarrow> nat \<Rightarrow> nat \<Rightarrow> nat \<Rightarrow> real \<Rightarrow> string option \<Rightarrow> string \<Rightarrow> tensor build" where
  "res_mhsa_with_multi_head_position inputs embed_dim num_heads key_dim attn_ratio drop_rate activation n =
     then_do (mhsa_with_multi_head_position inputs embed_dim num_heads key_dim attn_ratio activation n) (\<lambda>nn.
     then_do (if drop_rate > 0 then Dropout_call drop_rate (n @ ''drop'') nn else ret nn) (\<lambda>nn.
     Add_call (n @ ''add'') inputs nn))"

definition res_mlp_block ::
  "tensor \<Rightarrow> nat \<Rightarrow> real \<Rightarrow> bool \<Rightarrow> string option \<Rightarrow> string \<Rightarrow> tensor build" where
  "res_mlp_block inputs mlp_ratio drop_rate use_bias activation n =
     (if shape inputs = [] then raise ValueError
      else
        let in_channels = last (shape inputs)
        in then_do (Dense_call (in_channels * mlp_ratio) [(''use_bias'', CBool use_bias)] (n @ ''1_dense'') inputs) (\<lambda>nn.
           then_do (batchnorm_with_activation nn activation False (n @ ''1_'')) (\<lambda>nn.
           then_do (Dense_call in_channels [(''use_bias'', CBool use_bias)] (n @ ''2_dense'') nn) (\<lambda>nn.
           then_do (batchnorm_with_activation nn None False (n @ ''2_'')) (\<lambda>nn.
           then_do (if drop_rate > 0 then Dropout_call drop_rate (n @ ''drop'') nn else ret nn) (\<lambda>nn.
           Add_call (n @ ''add'') inputs nn))))))"

definition attention_mlp_stack ::
  "tensor \<Rightarrow> nat \<Rightarrow> nat \<Rightarrow> nat \<Rightarrow> nat \<Rightarrow> nat \<Rightarrow> nat \<Rightarrow> nat \<Rightarrow> real \<Rightarrow> string option \<Rightarrow> string \<Rightarrow> tensor build" where
  "attention_mlp_stack inputs out_channel num_heads depth key_dim attn_ratio mlp_ratio strides drop_rate activation n =
     (if shape inputs = [] then raise ValueError
      else
        let embed_dim = last (shape inputs)
        in then_do
             (for_each
                (\<lambda>id nn.
                   let block_name = n @ ''block'' @ str_nat (id + 1) @ ''_''
                   in then_do (res_mhsa_with_multi_head_position nn embed_dim num_heads key_dim attn_ratio
                                 drop_rate activation block_name) (\<lambda>nn.
                      if mlp_ratio > 0
                      then res_mlp_block nn mlp_ratio drop_rate False activation (block_name @ ''mlp_'')
                      else ret nn))
                [0..<depth] inputs) (\<lambda>nn.
           if embed_dim \<noteq> out_channel then
             let block_name = n @ ''downsample_''
             in if key_dim = 0 then raise ZeroDivisionError
                else
                  let ds_num_heads = embed_dim div key_dim;
                      ds_attn_ratio = attn_ratio * strides
                  in then_do (mhsa_with_multi_head_position_and_strides nn out_channel ds_num_heads key_dim
                                ds_attn_ratio strides (Some ''hard_swish'') block_name) (\<lambda>nn.
                     if mlp_ratio > 0
                     then res_mlp_block nn mlp_ratio drop_rate False activation (block_name @ ''mlp_'')
                     else ret nn)
           else ret nn))"

definition patch_stem :: "tensor \<Rightarrow> nat \<Rightarrow> string option \<Rightarrow> string \<Rightarrow> tensor build" where
  "patch_stem inputs stem_width activation n =
     then_do (conv2d_no_bias inputs (stem_width div 8) 3 2 ''same'' False (n @ ''1_'')) (\<lambda>nn.
     then_do (batchnorm_with_activation nn activation False (n @ ''1_'')) (\<lambda>nn.
     then_do (conv2d_no_bias nn (stem_width div 4) 3 2 ''same'' False (n @ ''2_'')) (\<lambda>nn.
     then_do (batchnorm_with_activation nn activation False (n @ ''2_'')) (\<lambda>nn.
     then_do (conv2d_no_bias nn (stem_width div 2) 3 2 ''same'' False (n @ ''3_'')) (\<lambda>nn.
     then_do (batchnorm_with_activation nn activation False (n @ ''3_'')) (\<lambda>nn.
     then_do (conv2d_no_bias nn stem_width 3 2 ''same'' False (n @ ''4_'')) (\<lambda>nn.
     batchnorm_with_activation nn None False (n @ ''4_''))))))))"

definition GlobalAveragePooling1D_call :: "tensor \<Rightarrow> tensor build" where
  "GlobalAveragePooling1D_call x =
     (case shape x of
        [steps, features] \<Rightarrow>
          call_unnamed GlobalAveragePooling1D ''global_average_pooling1d'' [] [x] [features]
      | _ \<Rightarrow> raise ValueError)"

text \<open>The arguments of \<^verbatim>\<open>LeViT\<close> and the model it returns.\<close>

record levit_args =
  patch_channel :: nat
  out_channels :: "nat list"
  num_heads :: "nat list"
  depthes :: "nat list"
  key_dims :: "nat list"
  attn_ratios :: "nat list"
  mlp_ratios :: "nat list"
  strides :: "nat list"
  input_shape :: "nat list"
  num_classes :: nat
  activation :: "string option"
  drop_connect_rate :: real
  dropout :: real
  classifier_activation :: "string option"
  use_distillation :: bool
  pretrained :: "string option"
  model_name :: string

record keras_model =
  m_name :: string
  m_layers :: "layer list"
  m_inputs :: "tensor list"
  m_outputs :: "tensor list"

text \<open>
  Modelled from the spec: \<^verbatim>\<open>reload_model_weights_with_mismatch\<close> (module
  \<^verbatim>\<open>download_and_load\<close>, not among the sources) assigns pretrained weights to the
  variables of the model, by layer name, and changes neither its layers nor their
  connections. The variables are not part of the builder's model, so the graph comes back
  as it is.
\<close>

definition reload_model_weights_with_mismatch :: "keras_model \<Rightarrow> string option \<Rightarrow> keras_model" where
  "reload_model_weights_with_mismatch model pretrained_arg = model"

text \<open>
  The first part of \<^verbatim>\<open>LeViT\<close>, up to the end of the loop over the stages: the input,
  the patch stem, the reshape to a sequence of tokens, and the stages. It returns the
  input tensor and the output of the last stage.
\<close>

definition LeViT_stages :: "levit_args \<Rightarrow> (tensor \<times> tensor) build" where
  "LeViT_stages a =
     then_do (Input_layer (input_shape a)) (\<lambda>inputs.
     then_do (patch_stem inputs (patch_channel a) (activation a) ''stem_'') (\<lambda>nn.
     then_do (case shape nn of
                [h, w, c] \<Rightarrow> reshape nn [h * w, patch_channel a]
              | _ \<Rightarrow> raise ValueError) (\<lambda>nn.
     then_do (for_each
                (\<lambda>(id, out_channel, num_head, depth, key_dim, attn_ratio, mlp_ratio, stride) nn.
                   let name = ''stack'' @ str_nat (id + 1) @ ''_'';
                       drop_rate = 0
                   in attention_mlp_stack nn out_channel num_head depth key_dim attn_ratio mlp_ratio
                        stride drop_rate (activation a) name)
                (enumerate 0
                   (zip (out_channels a) (zip (num_heads a) (zip (depthes a) (zip (key_dims a)
                     (zip (attn_ratios a) (zip (mlp_ratios a) (strides a))))))))
                nn) (\<lambda>nn.
     ret (inputs, nn)))))"

text \<open>The rest of \<^verbatim>\<open>LeViT\<close>: the outputs, from the output of the last stage.\<close>

definition LeViT_outputs :: "levit_args \<Rightarrow> tensor \<Rightarrow> tensor list build" where
  "LeViT_outputs a nn =
     (if num_classes a = 0 then ret [nn]
      else
        then_do (GlobalAveragePooling1D_call nn) (\<lambda>nn.
        then_do (if dropout a > 0 \<and> dropout a < 1
                 then call_unnamed Dropout ''dropout'' [(''rate'', CReal (dropout a))] [nn] (shape nn)
                 else ret nn) (\<lambda>nn.
        then_do (batchnorm_with_activation nn None False ''head_'') (\<lambda>out.
        then_do (Dense_call (num_classes a)
                   [(''activation'', case classifier_activation a of None \<Rightarrow> CNone | Some c \<Rightarrow> CStr c)]
                   ''head'' out) (\<lambda>out.
        if use_distillation a then
          then_do (batchnorm_with_activation nn None False ''distill_head_'') (\<lambda>distill.
          then_do (Dense_call (num_classes a)
                     [(''activation'', case classifier_activation a of None \<Rightarrow> CNone | Some c \<Rightarrow> CStr c)]
                     ''distill_head'' distill) (\<lambda>distill.
          ret [out, distill]))
        else ret [out])))))"

definition LeViT :: "levit_args \<Rightarrow> keras_model build" where
  "LeViT a =
     then_do (LeViT_stages a) (\<lambda>(inputs, nn).
     then_do (LeViT_outputs a nn) (\<lambda>out g.
       let model = \<lparr>m_name = model_name a, m_layers = g_layers g, m_inputs = [inputs], m_outputs = out\<rparr>
       in Inr (reload_model_weights_with_mismatch model (pretrained a), g)))"

text \<open>A call of \<^verbatim>\<open>LeViT\<close> starts a new graph; Keras's name counters are what they are.\<close>

definition new_graph :: "(string \<Rightarrow> nat \<Rightarrow> string) \<Rightarrow> uids \<Rightarrow> graph" where
  "new_graph dn u = \<lparr>g_layers = [], g_uids = u, g_names = dn\<rparr>"

text \<open>
  A small configuration: a 16 by 16 image, a stem of width 8, one stage of one attention
  block with one head, no MLP, no downsampling, and no classes.
\<close>

definition small_args :: levit_args where
  "small_args =
     \<lparr>patch_channel = 8, out_channels = [8], num_heads = [1], depthes = [1], key_dims = [8],
      attn_ratios = [1], mlp_ratios = [0], strides = [0], input_shape = [16, 16, 3],
      num_classes = 0, activation = Some ''hard_swish'', drop_connect_rate = 0, dropout = 0,
      classifier_activation = None, use_distillation = True, pretrained = None,
      model_name = ''levit''\<rparr>"

text \<open>Reading off a build: the value returned, the classes of the layers that produce a
  model's outputs, and whether a model has a layer of a given class.\<close>

definition built :: "'a build \<Rightarrow> graph \<Rightarrow> 'a option" where
  "built b g = (case b g of Inl e \<Rightarrow> None | Inr (a, g') \<Rightarrow> Some a)"

definition output_classes :: "keras_model \<Rightarrow> layer_class list" where
  "output_classes m = map (\<lambda>t. cls (m_layers m ! producer t)) (m_outputs m)"

definition output_shapes :: "keras_model \<Rightarrow> nat list list" where
  "output_shapes m = map shape (m_outputs m)"

definition has_layer_of :: "layer_class \<Rightarrow> keras_model \<Rightarrow> bool" where
  "has_layer_of c m \<longleftrightarrow> c \<in> set (map cls (m_layers m))"

text \<open>
  \<open>creates_only S b\<close>: whenever the build step \<open>b\<close> succeeds, it has appended layers to
  the graph, all of a class in \<open>S\<close>, and has changed none of the layers that were there.
\<close>

definition creates_only :: "layer_class set \<Rightarrow> 'a build \<Rightarrow> bool" where
  "creates_only S b \<longleftrightarrow>
     (\<forall>g a g'. b g = Inr (a, g') \<longrightarrow>
        (\<exists>new. g_layers g' = g_layers g @ new \<and> (\<forall>l \<in> set new. cls l \<in> S)))"

section \<open>Model surgery: the sharpness-aware training step\<close>

text \<open>
  \<^verbatim>\<open>SAMModel.train_step\<close> works on what the engine provides: tensors with their
  arithmetic, the forward pass with the loss and its gradients, the optimizer and the
  metrics. None of these is part of the repository, so they are parameters of the model.

  The tensors and their arithmetic are the record \<open>arith\<close>: the four operations,
  \<^verbatim>\<open>tf.linalg.global_norm\<close> of a list of gradients, which passes over the entries that
  are \<^verbatim>\<open>None\<close>, and the constant \<^verbatim>\<open>1e-12\<close> as the arithmetic has it. A gradient that
  \<^verbatim>\<open>tape.gradient\<close> returns has the shape of its variable, so that \<^verbatim>\<open>assign_add\<close> and
  \<^verbatim>\<open>assign_sub\<close> are the operations \<open>t_add\<close> and \<open>t_sub\<close>.
\<close>

record 't arith =
  t_add :: "'t \<Rightarrow> 't \<Rightarrow> 't"
  t_sub :: "'t \<Rightarrow> 't \<Rightarrow> 't"
  t_mul :: "'t \<Rightarrow> 't \<Rightarrow> 't"
  t_div :: "'t \<Rightarrow> 't \<Rightarrow> 't"
  global_norm :: "'t option list \<Rightarrow> 't"
  eps :: 't

text \<open>
  The engine: \<open>forward_backward x y sample_weight vars s\<close> is the forward pass
  \<^verbatim>\<open>self(x, training=True)\<close> at the values \<open>vars\<close> of the trainable variables, the
  compiled loss and \<^verbatim>\<open>tape.gradient(loss, trainable_vars)\<close>; it gives the predictions,
  one gradient for each variable (\<^verbatim>\<open>None\<close> for a variable the loss does not depend on)
  and the new state of everything else (non-trainable variables, random generators, and
  the loss tracker, which \<^verbatim>\<open>compiled_loss\<close> updates at every call).
  \<open>apply_gradients\<close> is the optimizer's update of the variables, \<open>update_state\<close> is
  \<^verbatim>\<open>compiled_metrics.update_state\<close>, and \<open>metric_results\<close> collects the results of
  \<^verbatim>\<open>self.metrics\<close>, the loss tracker and the compiled metrics.
\<close>

record ('t, 'b, 'y, 's) engine =
  forward_backward :: "'b \<Rightarrow> 'b \<Rightarrow> 'b option \<Rightarrow> 't list \<Rightarrow> 's \<Rightarrow> 'y \<times> 't option list \<times> 's"
  apply_gradients :: "'t option list \<Rightarrow> 't list \<Rightarrow> 's \<Rightarrow> 't list \<times> 's"
  update_state :: "'b \<Rightarrow> 'y \<Rightarrow> 'b option \<Rightarrow> 's \<Rightarrow> 's"
  metric_results :: "'s \<Rightarrow> (string \<times> 't) list"

record ('t, 's) SAMModel =
  rho :: 't
  trainable_variables :: "'t list"
  rest :: 's

text \<open>
  The first loop: for each variable and its gradient, \<^verbatim>\<open>e_w = grad * scale\<close>,
  \<^verbatim>\<open>v.assign_add(e_w)\<close>, and \<open>e_w\<close> is recorded. The variables are changed in place,
  one after the other. A gradient \<^verbatim>\<open>None\<close> cannot be multiplied: the loop ends there
  with a ValueError, the variables before it changed and the others not. \<^verbatim>\<open>zip\<close> stops
  at the end of the shorter list. The result is the variables as the loop leaves them,
  the list of the \<open>e_w\<close>, and the error, if any.
\<close>

fun perturb :: "'t arith \<Rightarrow> 't \<Rightarrow> 't list \<Rightarrow> 't option list
    \<Rightarrow> 't list \<times> 't list \<times> py_error option" where
  "perturb A scale [] gs = ([], [], None)"
| "perturb A scale (v # vs) [] = (v # vs, [], None)"
| "perturb A scale (v # vs) (g # gs) =
     (case g of
        None \<Rightarrow> (v # vs, [], Some ValueError)
      | Some grad \<Rightarrow>
          let e_w = t_mul A grad scale
          in (case perturb A scale vs gs of
                (vs', e_w_list, err) \<Rightarrow> (t_add A v e_w # vs', e_w # e_w_list, err)))"

text \<open>The second loop: \<^verbatim>\<open>v.assign_sub(e_w)\<close> for each variable and its recorded \<open>e_w\<close>.\<close>

fun unperturb :: "'t arith \<Rightarrow> 't list \<Rightarrow> 't list \<Rightarrow> 't list" where
  "unperturb A [] e_w_list = []"
| "unperturb A (v # vs) [] = v # vs"
| "unperturb A (v # vs) (e_w # e_w_list) = t_sub A v e_w # unperturb A vs e_w_list"

text \<open>
  The step returns the metrics and leaves the model changed; when it raises, the model is
  left as it was at that moment.
\<close>

definition train_step ::
  "'t arith \<Rightarrow> ('t, 'b, 'y, 's) engine \<Rightarrow> ('t, 's) SAMModel \<Rightarrow> 'b list
     \<Rightarrow> (py_error \<times> ('t, 's) SAMModel) + ((string \<times> 't) list \<times> ('t, 's) SAMModel)" where
  "train_step A E self data =
     (case (case data of
              [x, y, sample_weight] \<Rightarrow> Inr (x, y, Some sample_weight)
            | [x, y] \<Rightarrow> Inr (x, y, None)
            | _ \<Rightarrow> Inl ValueError) of
        Inl e \<Rightarrow> Inl (e, self)
      | Inr (x, y, sample_weight) \<Rightarrow>
          (case forward_backward E x y sample_weight (trainable_variables self) (rest self) of
             (y_pred, gradients, s1) \<Rightarrow>
               let norm = global_norm A gradients;
                   scale = t_div A (rho self) (t_add A norm (eps A))
               in (case perturb A scale (trainable_variables self) gradients of
                     (perturbed, e_w_list, Some e) \<Rightarrow>
                       Inl (e, self\<lparr>trainable_variables := perturbed, rest := s1\<rparr>)
                   | (perturbed, e_w_list, None) \<Rightarrow>
                       (case forward_backward E x y sample_weight perturbed s1 of
                          (y_pred_adv, gradients_adv, s2) \<Rightarrow>
                            let restored = unperturb A perturbed e_w_list
                            in (case apply_gradients E gradients_adv restored s2 of
                                  (updated, s3) \<Rightarrow>
                                    let s4 = update_state E y y_pred sample_weight s3
                                    in Inr (metric_results E s4,
                                            self\<lparr>trainable_variables := updated, rest := s4\<rparr>))))))"

subsection \<open>Two arithmetics\<close>

text \<open>
  Exact arithmetic on the reals, for tensors of one entry; the norm is the root of the
  sum of the squares of the gradients there are.
\<close>

definition real_arith :: "real arith" where
  "real_arith =
     \<lparr>t_add = (+), t_sub = (-), t_mul = (*), t_div = (/),
      global_norm = (\<lambda>gs. sqrt (sum_list (map (\<lambda>g. case g of None \<Rightarrow> 0 | Some t \<Rightarrow> t * t) gs))),
      eps = 1 / 10 ^ 12\<rparr>"

text \<open>
  IEEE binary32, the \<^verbatim>\<open>tf.float32\<close> of the variables and of \<^verbatim>\<open>self.rho\<close>: a finite
  number is a rational, \<open>None\<close> stands for what is not a finite number. Every operation
  gives the exact result rounded to the nearest number with a significand of 24 bits, a
  tie going to the even significand: the unit in the last place of \<open>x\<close> is \<open>2\<^sup>e\<close> with
  \<open>e = \<lfloor>log\<^sub>2 \<bar>x\<bar>\<rfloor> - 23\<close>, but not less than \<open>-149\<close>, and a result of magnitude
  \<open>2\<^sup>1\<^sup>2\<^sup>8\<close> or more is not finite. \<open>ilog2 x\<close> is \<open>\<lfloor>log\<^sub>2 \<bar>x\<bar>\<rfloor>\<close>, from the bit lengths of
  numerator and denominator.
\<close>

definition round_half_even :: "rat \<Rightarrow> int" where
  "round_half_even x =
     (let f = \<lfloor>x\<rfloor>; d = x - of_int f
      in if d < 1 / 2 then f else if 1 / 2 < d then f + 1 else if even f then f else f + 1)"

definition ilog2 :: "rat \<Rightarrow> int" where
  "ilog2 x =
     (case quotient_of \<bar>x\<bar> of (p, q) \<Rightarrow>
        let k = bitlen p - bitlen q in if 2 powi k \<le> \<bar>x\<bar> then k else k - 1)"

definition binary32_ulp :: "rat \<Rightarrow> rat" where
  "binary32_ulp x = 2 powi (max (- 149) (ilog2 x - 23))"

definition binary32 :: "rat \<Rightarrow> rat option" where
  "binary32 x =
     (if x = 0 then Some 0
      else
        let u = binary32_ulp x;
            r = of_int (round_half_even (x / u)) * u
        in if \<bar>r\<bar> < 2 ^ 128 then Some r else None)"

definition lift32 :: "(rat \<Rightarrow> rat \<Rightarrow> rat) \<Rightarrow> rat option \<Rightarrow> rat option \<Rightarrow> rat option" where
  "lift32 f a b = (case (a, b) of (Some x, Some y) \<Rightarrow> binary32 (f x y) | _ \<Rightarrow> None)"

definition div32 :: "rat option \<Rightarrow> rat option \<Rightarrow> rat option" where
  "div32 a b = (case (a, b) of (Some x, Some y) \<Rightarrow> if y = 0 then None else binary32 (x / y) | _ \<Rightarrow> None)"

text \<open>
  The square root in binary32, rounded the same way. \<open>isqrt n\<close> is the integer part of
  the root of \<open>n\<close>, two bits of \<open>n\<close> for each bit of the root. The root of \<open>x\<close> has
  the binary logarithm \<open>\<lfloor>ilog2 x / 2\<rfloor>\<close>, which gives its unit in the last place \<open>u\<close>;
  with \<open>y = x / u\<^sup>2\<close> and \<open>n = isqrt \<lfloor>y\<rfloor>\<close> the root lies between \<open>n * u\<close> and
  \<open>(n + 1) * u\<close>, nearer to the first if \<open>y < (n + 1/2)\<^sup>2\<close>.
\<close>

function isqrt :: "int \<Rightarrow> int" where
  "isqrt n =
     (if n < 4 then (if n \<le> 0 then 0 else 1)
      else let r = 2 * isqrt (n div 4)
           in if (r + 1) * (r + 1) \<le> n then r + 1 else r)"
  by pat_completeness auto
termination
  by (relation "measure nat") auto

definition sqrt32 :: "rat option \<Rightarrow> rat option" where
  "sqrt32 a =
     (case a of
        None \<Rightarrow> None
      | Some x \<Rightarrow>
          if x < 0 then None
          else if x = 0 then Some 0
          else
            let u = 2 powi (max (- 149) (ilog2 x div 2 - 23));
                y = x / (u * u);
                n = isqrt \<lfloor>y\<rfloor>;
                h = (of_int n + 1 / 2) * (of_int n + 1 / 2);
                m = (if y < h then n else if h < y then n + 1 else if even n then n else n + 1)
            in Some (of_int m * u))"

text \<open>
  \<^verbatim>\<open>tf.linalg.global_norm\<close> for tensors of one entry: \<^verbatim>\<open>l2_loss(t)\<close>, half the
  square of the entry, for every gradient that is not \<^verbatim>\<open>None\<close>; their sum, taken from
  left to right; and the root of twice the sum.
\<close>

definition l2_loss32 :: "rat option \<Rightarrow> rat option" where
  "l2_loss32 t = lift32 (*) (lift32 (*) t t) (Some (1 / 2))"

definition global_norm32 :: "rat option option list \<Rightarrow> rat option" where
  "global_norm32 values =
     (let half_squared_norms = map l2_loss32 (List.map_filter id values);
          half_squared_norm = foldl (lift32 (+)) (Some 0) half_squared_norms
      in sqrt32 (lift32 (*) half_squared_norm (Some 2)))"

definition float32_arith :: "rat option arith" where
  "float32_arith =
     \<lparr>t_add = lift32 (+), t_sub = lift32 (-), t_mul = lift32 (*), t_div = div32,
      global_norm = global_norm32,
      eps = binary32 (1 / 10 ^ 12)\<rparr>"

subsection \<open>A linear model\<close>

text \<open>
  An engine to run the step with, in the arithmetic \<open>A\<close>. The model is
  \<^verbatim>\<open>y_pred = w * x\<close> for the first of its trainable variables; the loss does not depend
  on the others, whose gradients are \<^verbatim>\<open>None\<close>. The loss is \<^verbatim>\<open>y_pred - y\<close>, with the
  gradient \<open>x\<close> for \<open>w\<close>, at every value of \<open>w\<close>. The batch has one sample and no
  sample weight.

  The state besides the variables is that of two running means, each a total and a count:
  the loss tracker, to which \<^verbatim>\<open>compiled_loss\<close> adds the loss at every call, and the one
  compiled metric \<^verbatim>\<open>mean_error\<close>, to which \<^verbatim>\<open>update_state\<close> adds \<^verbatim>\<open>y_pred - y\<close>.
  \<^verbatim>\<open>self.metrics\<close> has the loss tracker first. The optimizer is plain gradient descent
  with the learning rate \<open>lr\<close>; it passes over a variable without a gradient.
\<close>

record 't trackers =
  loss_total :: 't
  loss_count :: 't
  metric_total :: 't
  metric_count :: 't

definition linear_engine :: "'t arith \<Rightarrow> 't \<Rightarrow> 't \<Rightarrow> 't \<Rightarrow> ('t, 't, 't, 't trackers) engine" where
  "linear_engine A zero one lr =
     \<lparr>forward_backward = (\<lambda>x y sample_weight vars s.
        let y_pred = (case vars of [] \<Rightarrow> zero | w # ws \<Rightarrow> t_mul A w x);
            loss = t_sub A y_pred y;
            gradients = (case vars of [] \<Rightarrow> [] | w # ws \<Rightarrow> Some x # map (\<lambda>v. None) ws)
        in (y_pred, gradients,
            s\<lparr>loss_total := t_add A (loss_total s) loss, loss_count := t_add A (loss_count s) one\<rparr>)),
      apply_gradients = (\<lambda>grads vars s.
        (map2 (\<lambda>g v. case g of None \<Rightarrow> v | Some grad \<Rightarrow> t_sub A v (t_mul A lr grad)) grads vars, s)),
      update_state = (\<lambda>y y_pred sample_weight s.
        s\<lparr>metric_total := t_add A (metric_total s) (t_sub A y_pred y),
          metric_count := t_add A (metric_count s) one\<rparr>),
      metric_results = (\<lambda>s.
        [(''loss'', t_div A (loss_total s) (loss_count s)),
         (''mean_error'', t_div A (metric_total s) (metric_count s))])\<rparr>"

definition linear_model :: "'t \<Rightarrow> 't \<Rightarrow> 't list \<Rightarrow> ('t, 't trackers) SAMModel" where
  "linear_model zero r ws =
     \<lparr>rho = r, trainable_variables = ws,
      rest = \<lparr>loss_total = zero, loss_count = zero, metric_total = zero, metric_count = zero\<rparr>\<rparr>"

section \<open>Properties of hard-swish\<close>

lemma relu6_clamp: "relu6 z = clamp z 0 6"
  by (simp add: relu6_def clamp_def min_def max_def)

lemma hard_swish_middle:
  assumes "- 3 \<le> x" and "x \<le> 3"
  shows "hard_swish x = x * (x + 3) / 6"
  using assms by (simp add: hard_swish_def relu6_def min_def max_def)

lemma hard_swish_upper:
  assumes "3 \<le> x"
  shows "hard_swish x = x"
  using assms by (simp add: hard_swish_def relu6_def min_def max_def)

lemma hard_swish_mono_middle:
  assumes "- 3 / 2 \<le> x" and "x \<le> y" and "y \<le> 3"
  shows "hard_swish x \<le> hard_swish y"
proof -
  have "0 \<le> (y - x) * (x + y + 3)"
    using assms by (intro mult_nonneg_nonneg) auto
  then have "x * (x + 3) \<le> y * (y + 3)"
    by (simp add: algebra_simps)
  moreover have "hard_swish x = x * (x + 3) / 6"
    using assms by (intro hard_swish_middle) simp_all
  moreover have "hard_swish y = y * (y + 3) / 6"
    using assms by (intro hard_swish_middle) simp_all
  ultimately show ?thesis by simp
qed

lemma hard_swish_mono:
  assumes "- 3 / 2 \<le> x" and "x \<le> y"
  shows "hard_swish x \<le> hard_swish y"
proof (cases "y \<le> 3")
  case True
  then show ?thesis using assms by (rule_tac hard_swish_mono_middle)
next
  case y: False
  show ?thesis
  proof (cases "x \<le> 3")
    case True
    have "hard_swish x \<le> hard_swish 3"
      using assms True by (intro hard_swish_mono_middle) auto
    also have "hard_swish 3 = 3" by (simp add: hard_swish_upper)
    also have "3 \<le> hard_swish y" using y by (simp add: hard_swish_upper)
    finally show ?thesis .
  next
    case False
    then show ?thesis using assms y by (simp add: hard_swish_upper)
  qed
qed

text \<open>
  C8 (as the code has it). For every real \<open>x\<close>, \<open>hard_swish x = x * clamp (x + 3) 0 6 / 6\<close>;
  \<open>hard_swish (-3) = 0\<close>, \<open>hard_swish 0 = 0\<close>, \<open>hard_swish 3 = 3\<close>; and hard-swish is
  monotonically non-decreasing from \<open>-3/2\<close> on (not from \<open>-3\<close> on: between \<open>-3\<close> and
  \<open>-3/2\<close> it decreases).
\<close>

theorem hard_swish_clamp_values_mono:
  "hard_swish x = x * clamp (x + 3) 0 6 / 6
   \<and> hard_swish (- 3) = 0 \<and> hard_swish 0 = 0 \<and> hard_swish 3 = 3
   \<and> (- 3 / 2 \<le> x \<and> x \<le> y \<longrightarrow> hard_swish x \<le> hard_swish y)"
proof -
  have "hard_swish x = x * clamp (x + 3) 0 6 / 6"
    by (simp add: hard_swish_def relu6_clamp)
  moreover have "hard_swish (- 3) = 0" "hard_swish 0 = 0" "hard_swish 3 = 3"
    by (simp_all add: hard_swish_def relu6_def)
  moreover have "- 3 / 2 \<le> x \<and> x \<le> y \<longrightarrow> hard_swish x \<le> hard_swish y"
    using hard_swish_mono by blast
  ultimately show ?thesis by blast
qed

theorem hard_swish_clamp_values_mono_witness:
  "- 3 / 2 \<le> (- 1 :: real) \<and> (- 1 :: real) \<le> 2 \<and> hard_swish (- 1) \<le> hard_swish 2"
  using hard_swish_clamp_values_mono [of "- 1" 2] by simp

text \<open>
  C8 (as the specification states it) fails: \<open>-2\<close> and \<open>-3/2\<close> both lie above \<open>-3\<close>,
  \<open>-2 < -3/2\<close>, yet hard-swish takes the value \<open>-1/3\<close> at \<open>-2\<close> and the smaller value
  \<open>-3/8\<close> at \<open>-3/2\<close>.
\<close>

theorem hard_swish_not_mono_counterexample:
  "(- 3 :: real) < - 2 \<and> (- 2 :: real) \<le> - 3 / 2
   \<and> hard_swish (- 2) = - 1 / 3 \<and> hard_swish (- 3 / 2) = - 3 / 8
   \<and> \<not> hard_swish (- 2) \<le> hard_swish (- 3 / 2)"
  by (simp add: hard_swish_def relu6_def)


section \<open>Properties of the positional embedding\<close>

lemma find_upt_Some:
  "find P [0..<m] = Some k \<longleftrightarrow> k < m \<and> P k \<and> (\<forall>j<k. \<not> P j)"
  by (auto simp: find_Some_iff)

lemma floor_sqrt_square: "floor_sqrt (k * k) = k"
proof -
  have "\<not> k * k < Suc j * Suc j" if "j < k" for j
  proof -
    from that have "Suc j \<le> k" by simp
    then have "Suc j * Suc j \<le> k * k" by (intro mult_le_mono)
    then show ?thesis by simp
  qed
  then have "find (\<lambda>j. k * k < Suc j * Suc j) [0..<Suc (k * k)] = Some k"
    unfolding find_upt_Some by (auto simp: less_Suc_eq_le)
  then show ?thesis by (simp add: floor_sqrt_def)
qed

text \<open>
  The two searches compute what the source computes with \<^verbatim>\<open>tf.math.sqrt\<close>, read
  in exact arithmetic.
\<close>

lemma find_upt_least:
  assumes "P m"
  shows "\<exists>k\<le>m. find P [0..<Suc m] = Some k \<and> P k \<and> (\<forall>j<k. \<not> P j)"
proof (cases "find P [0..<Suc m]")
  case None
  then show ?thesis using assms by (auto simp: find_None_iff)
next
  case (Some k)
  have "k < Suc m \<and> P k \<and> (\<forall>j<k. \<not> P j)"
    using Some [unfolded find_upt_Some] .
  then have "k \<le> m \<and> P k \<and> (\<forall>j<k. \<not> P j)"
    by auto
  with Some show ?thesis by blast
qed

lemma floor_sqrt_bounds:
  "floor_sqrt n * floor_sqrt n \<le> n \<and> n < Suc (floor_sqrt n) * Suc (floor_sqrt n)"
proof -
  have "n < Suc n * Suc n" by simp
  from find_upt_least [of "\<lambda>k. n < Suc k * Suc k", OF this]
  obtain k where k: "floor_sqrt n = k" "n < Suc k * Suc k" "\<forall>j<k. \<not> n < Suc j * Suc j"
    by (auto simp: floor_sqrt_def)
  have "k * k \<le> n"
  proof (cases k)
    case 0
    then show ?thesis by simp
  next
    case (Suc j)
    with k(3) have "\<not> n < Suc j * Suc j" by simp
    with Suc show ?thesis by simp
  qed
  with k show ?thesis by simp
qed

lemma floor_sqrt_real: "int (floor_sqrt n) = \<lfloor>sqrt (real n)\<rfloor>"
proof -
  let ?k = "floor_sqrt n"
  have "real (?k * ?k) \<le> real n" "real n < real (Suc ?k * Suc ?k)"
    using floor_sqrt_bounds [of n] by (simp_all only: of_nat_le_iff of_nat_less_iff)
  then have "(real ?k)\<^sup>2 \<le> real n" "real n < (real ?k + 1)\<^sup>2"
    by (simp_all add: power2_eq_square algebra_simps)
  then have "real ?k \<le> sqrt (real n)" "sqrt (real n) < real ?k + 1"
    by (auto intro: real_le_rsqrt real_less_lsqrt)
  then show ?thesis by (intro floor_unique [symmetric]) simp_all
qed

lemma ceil_sqrt_div_real:
  assumes "0 < qq"
  shows "int (ceil_sqrt_div kk qq) = \<lceil>sqrt (real kk / real qq)\<rceil>"
proof -
  have "kk \<le> kk * kk * qq"
  proof (cases kk)
    case 0
    then show ?thesis by simp
  next
    case (Suc m)
    with assms have "1 \<le> kk * qq" by (simp add: Suc_le_eq)
    then have "kk * 1 \<le> kk * (kk * qq)" by (rule mult_le_mono2)
    then show ?thesis by (simp add: mult.assoc)
  qed
  from find_upt_least [of "\<lambda>s. kk \<le> s * s * qq", OF this]
  obtain s where s: "ceil_sqrt_div kk qq = s" "kk \<le> s * s * qq" "\<forall>t<s. \<not> kk \<le> t * t * qq"
    by (auto simp: ceil_sqrt_div_def)
  have q: "0 < real qq" using assms by simp
  have "real kk \<le> real (s * s * qq)" using s(2) by (simp only: of_nat_le_iff)
  then have "real kk / real qq \<le> (real s)\<^sup>2"
    using q by (simp add: divide_le_eq power2_eq_square)
  then have up: "sqrt (real kk / real qq) \<le> real s"
    by (intro real_le_lsqrt) simp_all
  have lo: "real s - 1 < sqrt (real kk / real qq)"
  proof (cases s)
    case 0
    have "0 \<le> sqrt (real kk / real qq)" by simp
    with 0 show ?thesis by linarith
  next
    case (Suc t)
    with s(3) have "t * t * qq < kk" by (simp add: not_le)
    then have "real (t * t * qq) < real kk" by (simp only: of_nat_less_iff)
    then have "(real t)\<^sup>2 < real kk / real qq"
      using q by (simp add: less_divide_eq power2_eq_square)
    then have "real t < sqrt (real kk / real qq)"
      by (rule real_less_rsqrt)
    with Suc show ?thesis by simp
  qed
  from up lo have "\<lceil>sqrt (real kk / real qq)\<rceil> = int s"
    by (intro ceiling_unique) simp_all
  with s(1) show ?thesis by simp
qed

lemma meshgrid_points_bounds:
  assumes "p \<in> set (meshgrid_points n)"
  shows "0 \<le> fst p \<and> fst p < int n \<and> 0 \<le> snd p \<and> snd p < int n"
  using assms by (auto simp: meshgrid_points_def)

lemma meshgrid_points_length: "length (meshgrid_points n) = n * n"
  by (simp add: meshgrid_points_def length_concat comp_def sum_list_triv)

lemma grid_offset_bound:
  fixes x1 x2 s q k :: int
  assumes "0 \<le> x1" "x1 < q" "0 \<le> x2" "x2 < k" "0 \<le> s" "(q - 1) * s \<le> k - 1"
  shows "\<bar>x2 - x1 * s\<bar> \<le> k - 1"
proof -
  have "x1 * s \<le> (q - 1) * s"
    using assms by (intro mult_right_mono) auto
  moreover have "0 \<le> x1 * s"
    using assms by simp
  ultimately show ?thesis using assms by linarith
qed

lemma bucket_bound:
  fixes dx dy k :: int
  assumes "0 \<le> dx" "dx \<le> k - 1" "0 \<le> dy" "dy \<le> k - 1"
  shows "0 \<le> dx + dy * k \<and> dx + dy * k < k * k"
proof -
  have k: "0 \<le> k" using assms by linarith
  have "dy * k \<le> (k - 1) * k"
    using assms k by (intro mult_right_mono) auto
  then have "dx + dy * k \<le> (k - 1) + (k - 1) * k"
    using assms by linarith
  also have "\<dots> = k * k - 1" by (simp add: algebra_simps)
  finally have "dx + dy * k < k * k" by simp
  moreover have "0 \<le> dy * k" using assms k by simp
  ultimately show ?thesis using assms by linarith
qed


lemma build_ok:
  assumes "0 < qq_blocks"
  shows "\<exists>self. build (n_heads, qq_blocks, kk_blocks) = Inr self"
  using assms by (simp add: build_def Let_def)

lemma build_bb_pos_bounds:
  assumes sq: "qq_blocks = qh * qh" "kk_blocks = kh * kh"
    and st: "(int qh - 1) * int (ceil_sqrt_div kk_blocks qq_blocks) \<le> int kh - 1"
    and b: "build (n_heads, qq_blocks, kk_blocks) = Inr self"
    and row: "row \<in> set (bb_pos self)" and i: "i \<in> set row"
  shows "0 \<le> i \<and> i < int kk_blocks"
proof -
  define s where "s = int (ceil_sqrt_div kk_blocks qq_blocks)"
  have s0: "0 \<le> s" by (simp add: s_def)
  from b have pos: "bb_pos self =
      map (\<lambda>ii. map (\<lambda>c. fst c + snd c * int kh)
        (map (\<lambda>b. (\<bar>fst b - fst ii * s\<bar>, \<bar>snd b - snd ii * s\<bar>)) (meshgrid_points kh)))
        (meshgrid_points qh)"
    by (auto simp: build_def Let_def sq floor_sqrt_square s_def split: if_splits)
  from row i pos obtain a c where a: "a \<in> set (meshgrid_points qh)"
    and c: "c \<in> set (meshgrid_points kh)"
    and i_eq: "i = \<bar>fst c - fst a * s\<bar> + \<bar>snd c - snd a * s\<bar> * int kh"
    by auto
  from a have ab: "0 \<le> fst a" "fst a < int qh" "0 \<le> snd a" "snd a < int qh"
    using meshgrid_points_bounds by blast+
  from c have cb: "0 \<le> fst c" "fst c < int kh" "0 \<le> snd c" "snd c < int kh"
    using meshgrid_points_bounds by blast+
  have dx: "\<bar>fst c - fst a * s\<bar> \<le> int kh - 1"
    using ab cb s0 st [folded s_def] by (intro grid_offset_bound [where q = "int qh"]) auto
  have dy: "\<bar>snd c - snd a * s\<bar> \<le> int kh - 1"
    using ab cb s0 st [folded s_def] by (intro grid_offset_bound [where q = "int qh"]) auto
  have "0 \<le> i \<and> i < int kh * int kh"
    unfolding i_eq using dx dy by (intro bucket_bound) auto
  then show ?thesis by (simp add: sq)
qed

lemma gather_ok:
  assumes "\<forall>row \<in> set indices. \<forall>i \<in> set row. 0 \<le> i \<and> i < int (length params)"
  shows "\<exists>v. gather params indices = Inr v"
  using assms by (simp add: gather_def)

text \<open>
  C10. For an input shape \<open>(_, n_heads, qq_blocks, kk_blocks)\<close> with
  \<open>qq_blocks = qh\<^sup>2\<close>, \<open>kk_blocks = kh\<^sup>2\<close>, \<open>qq_blocks \<le> kk_blocks\<close> and
  \<open>(qh - 1) * strides \<le> kh - 1\<close> for the stride \<open>\<lceil>sqrt (kk_blocks / qq_blocks)\<rceil>\<close> that
  \<^verbatim>\<open>build\<close> computes: \<^verbatim>\<open>build\<close> fails only for \<open>qq_blocks = 0\<close> (the division), and
  otherwise every entry of \<^verbatim>\<open>bb_pos\<close> lies in \<open>[0, kk_blocks)\<close>, so the gather in
  \<^verbatim>\<open>call\<close> succeeds on the table built and on every later value of the table with
  \<open>kk_blocks\<close> rows.
\<close>

theorem bb_pos_within_table:
  assumes "qq_blocks = qh * qh" and "kk_blocks = kh * kh" and "qq_blocks \<le> kk_blocks"
    and "(int qh - 1) * int (ceil_sqrt_div kk_blocks qq_blocks) \<le> int kh - 1"
  shows "case build (n_heads, qq_blocks, kk_blocks) of
           Inl e \<Rightarrow> qq_blocks = 0
         | Inr self \<Rightarrow>
             (\<forall>row \<in> set (bb_pos self). \<forall>i \<in> set row. 0 \<le> i \<and> i < int kk_blocks)
             \<and> (\<exists>v. call_pos_bias self = Inr v)
             \<and> (\<forall>table. length table = kk_blocks \<longrightarrow>
                   (\<exists>v. call_pos_bias (self\<lparr>bb := table\<rparr>) = Inr v))"
proof (cases "build (n_heads, qq_blocks, kk_blocks)")
  case (Inl e)
  then show ?thesis by (simp add: build_def Let_def split: if_splits)
next
  case (Inr self)
  have bounds: "\<forall>row \<in> set (bb_pos self). \<forall>i \<in> set row. 0 \<le> i \<and> i < int kk_blocks"
    using build_bb_pos_bounds [OF assms(1,2,4) Inr] by blast
  have len: "length (bb self) = kk_blocks"
    using Inr by (auto simp: build_def Let_def split: if_splits)
  have "\<exists>v. call_pos_bias (self\<lparr>bb := table\<rparr>) = Inr v" if "length table = kk_blocks" for table
  proof -
    from bounds that obtain g where "gather table (bb_pos self) = Inr g"
      using gather_ok [of "bb_pos self" table] by auto
    then show ?thesis by (simp add: call_pos_bias_def)
  qed
  moreover from this [of "bb self"] len have "\<exists>v. call_pos_bias self = Inr v" by simp
  ultimately show ?thesis using Inr bounds by simp
qed

theorem bb_pos_within_table_witness:
  "(4::nat) = 2 * 2 \<and> (16::nat) = 4 * 4 \<and> (4::nat) \<le> 16
   \<and> (int 2 - 1) * int (ceil_sqrt_div 16 4) \<le> int 4 - 1
   \<and> (case build (3, 4, 16) of
         Inl e \<Rightarrow> (4::nat) = 0
       | Inr self \<Rightarrow>
           (\<forall>row \<in> set (bb_pos self). \<forall>i \<in> set row. 0 \<le> i \<and> i < int 16)
           \<and> (\<exists>v. call_pos_bias self = Inr v)
           \<and> (\<forall>table. length table = 16 \<longrightarrow>
                 (\<exists>v. call_pos_bias (self\<lparr>bb := table\<rparr>) = Inr v)))"
proof -
  have s: "ceil_sqrt_div 16 4 = 2" by code_simp
  have h: "(int 2 - 1) * int (ceil_sqrt_div 16 4) \<le> int 4 - 1"
    unfolding s by simp
  show ?thesis
    using h bb_pos_within_table [of 4 2 16 4 3, OF _ _ _ h] by simp
qed

section \<open>Properties of cloning\<close>

lemma clone_layers_pure_on:
  assumes "\<And>l u. l \<in> set ls \<Longrightarrow> cls l \<noteq> InputLayer \<Longrightarrow> f l u = Inr (g l, u)"
  shows "clone_layers i f ls u =
    Inr (map (\<lambda>l. (if cls l = InputLayer then (case i of None \<Rightarrow> l | Some x \<Rightarrow> x) else g l)
                  \<lparr>inbound := inbound l\<rparr>) ls, u)"
  using assms by (induction ls) simp_all

lemma clone_layers_pure:
  assumes "\<And>l u. cls l \<noteq> InputLayer \<Longrightarrow> f l u = Inr (g l, u)"
  shows "clone_layers i f ls u =
    Inr (map (\<lambda>l. (if cls l = InputLayer then (case i of None \<Rightarrow> l | Some x \<Rightarrow> x) else g l)
                  \<lparr>inbound := inbound l\<rparr>) ls, u)"
  by (rule clone_layers_pure_on) (simp add: assms)

lemma clone_layers_length:
  assumes "clone_layers i f ls u = Inr (ls', u')"
  shows "length ls' = length ls"
  using assms
  by (induction ls arbitrary: ls' u) (auto split: sum.splits if_splits prod.splits)

lemma clone_layers_inbound:
  assumes "clone_layers i f ls u = Inr (ls', u')"
  shows "map inbound ls' = map inbound ls"
  using assms
  by (induction ls arbitrary: ls' u) (auto split: sum.splits if_splits prod.splits)

section \<open>Properties of the mixed-precision conversions\<close>

lemma with_dtype_ok: "with_dtype sample policy l = Inr (l\<lparr>dtype := policy\<rparr>)"
proof -
  have a: "list_all2 (\<lambda>w v. length (snd w) = length v)
          (map (\<lambda>w. (fst w, initial_value sample (fst w) (length (snd w)))) ws) (map snd ws)"
    for ws :: "(initializer \<times> real list) list"
    by (induction ws) (auto simp: initial_value_def split: initializer.splits)
  have b: "map2 (\<lambda>w v. (fst w, v))
          (map (\<lambda>w. (fst w, initial_value sample (fst w) (length (snd w)))) ws) (map snd ws) = ws"
    for ws :: "(initializer \<times> real list) list"
    by (induction ws) auto
  show ?thesis
    by (simp add: with_dtype_def Let_def set_weights_def from_config_built_def get_weights_def a b)
qed

lemma do_convert_to_mixed_float16_pure:
  "do_convert_to_mixed_float16 sample cbn l u =
     Inr (if (\<not> cbn \<and> cls l = BatchNormalization) \<or> cls l = InputLayer \<or> is_linear_activation l
          then l else l\<lparr>dtype := ''mixed_float16''\<rparr>, u)"
  by (simp add: do_convert_to_mixed_float16_def with_dtype_ok)

lemma do_convert_to_float32_pure:
  "do_convert_to_float32 sample l u =
     Inr (if cls l = InputLayer \<or> is_linear_activation l then l else l\<lparr>dtype := ''float32''\<rparr>, u)"
  by (simp add: do_convert_to_float32_def with_dtype_ok)


lemma is_linear_activation_dtype [simp]:
  "is_linear_activation (l\<lparr>dtype := p\<rparr>) = is_linear_activation l"
  by (simp add: is_linear_activation_def cfg_str_def)

lemma is_linear_activation_inbound [simp]:
  "is_linear_activation (l\<lparr>inbound := p\<rparr>) = is_linear_activation l"
  by (simp add: is_linear_activation_def cfg_str_def)

lemma Input_cls: "Input dn shp u = (i, u') \<Longrightarrow> cls i = InputLayer"
  by (auto simp: Input_def fresh_name_def)

text \<open>
  C7. Converting a model to mixed precision and the result back to full precision
  succeeds and yields a model with as many layers, of the same classes and with the same
  connections; every layer other than the input placeholder keeps its name, its
  configuration and its weight values, exactly, and ends with the \<open>float32\<close> policy
  unless it is a linear activation, which neither conversion touches.
\<close>

theorem mixed_float16_round_trip:
  "\<exists>m1 u1 m2 u2.
     convert_to_mixed_float16 dn sample model convert_batch_norm u = Inr (m1, u1)
     \<and> convert_mixed_float16_to_float32 dn sample m1 u1 = Inr (m2, u2)
     \<and> length m2 = length model
     \<and> map cls m2 = map cls model
     \<and> map inbound m2 = map inbound model
     \<and> (\<forall>k < length model. cls (model ! k) \<noteq> InputLayer \<longrightarrow>
           name (m2 ! k) = name (model ! k) \<and> config (m2 ! k) = config (model ! k)
           \<and> trainable (m2 ! k) = trainable (model ! k)
           \<and> weights (m2 ! k) = weights (model ! k)
           \<and> (\<not> is_linear_activation (model ! k) \<longrightarrow> dtype (m2 ! k) = ''float32''))"
proof -
  obtain i1 u1 where i1: "Input dn (model_input_shape model) u = (i1, u1)"
    by (cases "Input dn (model_input_shape model) u")
  define c1 where "c1 = (\<lambda>l. (if cls l = InputLayer then i1
      else if (\<not> convert_batch_norm \<and> cls l = BatchNormalization) \<or> cls l = InputLayer \<or> is_linear_activation l
           then l else l\<lparr>dtype := ''mixed_float16''\<rparr>)\<lparr>inbound := inbound l\<rparr>)"
  have m1: "convert_to_mixed_float16 dn sample model convert_batch_norm u = Inr (map c1 model, u1)"
    unfolding convert_to_mixed_float16_def i1 c1_def
    by (simp add: clone_layers_pure [where g = "\<lambda>l. if (\<not> convert_batch_norm \<and> cls l = BatchNormalization) \<or> cls l = InputLayer \<or> is_linear_activation l
           then l else l\<lparr>dtype := ''mixed_float16''\<rparr>"] do_convert_to_mixed_float16_pure)
  obtain i2 u2 where i2: "Input dn (model_input_shape (map c1 model)) u1 = (i2, u2)"
    by (cases "Input dn (model_input_shape (map c1 model)) u1")
  define c2 where "c2 = (\<lambda>l. (if cls l = InputLayer then i2
      else if cls l = InputLayer \<or> is_linear_activation l
           then l else l\<lparr>dtype := ''float32''\<rparr>)\<lparr>inbound := inbound l\<rparr>)"
  have m2: "convert_mixed_float16_to_float32 dn sample (map c1 model) u1 = Inr (map c2 (map c1 model), u2)"
    unfolding convert_mixed_float16_to_float32_def i2 c2_def
    by (simp add: clone_layers_pure [where g = "\<lambda>l. if cls l = InputLayer \<or> is_linear_activation l
           then l else l\<lparr>dtype := ''float32''\<rparr>"] do_convert_to_float32_pure)
  have ci: "cls i1 = InputLayer" "cls i2 = InputLayer"
    using i1 i2 by (auto dest: Input_cls)
  have cls1: "cls (c1 l) = cls l" for l by (simp add: c1_def ci)
  have cls2: "cls (c2 l) = cls l" for l by (simp add: c2_def ci)
  have inb: "inbound (c2 (c1 l)) = inbound l" for l by (simp add: c1_def c2_def)
  have keep: "name (c2 (c1 l)) = name l \<and> config (c2 (c1 l)) = config l
      \<and> trainable (c2 (c1 l)) = trainable l \<and> weights (c2 (c1 l)) = weights l
      \<and> (\<not> is_linear_activation l \<longrightarrow> dtype (c2 (c1 l)) = ''float32'')"
    if "cls l \<noteq> InputLayer" for l
    using that by (simp add: c1_def c2_def)
  let ?m1 = "map c1 model" and ?m2 = "map c2 (map c1 model)"
  have "length ?m2 = length model \<and> map cls ?m2 = map cls model \<and> map inbound ?m2 = map inbound model"
    by (simp add: cls1 cls2 inb)
  moreover have "\<forall>k < length model. cls (model ! k) \<noteq> InputLayer \<longrightarrow>
           name (?m2 ! k) = name (model ! k) \<and> config (?m2 ! k) = config (model ! k)
           \<and> trainable (?m2 ! k) = trainable (model ! k)
           \<and> weights (?m2 ! k) = weights (model ! k)
           \<and> (\<not> is_linear_activation (model ! k) \<longrightarrow> dtype (?m2 ! k) = ''float32'')"
    using keep by simp
  ultimately show ?thesis
    using m1 m2 by blast
qed

theorem mixed_float16_round_trip_witness:
  "(1::nat) < length example_model \<and> cls (example_model ! 1) \<noteq> InputLayer
   \<and> \<not> is_linear_activation (example_model ! 1)
   \<and> (\<exists>m1 u1 m2 u2.
        convert_to_mixed_float16 keras_names zero_sample example_model False no_uids = Inr (m1, u1)
        \<and> convert_mixed_float16_to_float32 keras_names zero_sample m1 u1 = Inr (m2, u2)
        \<and> length m2 = 4
        \<and> weights (m2 ! 1) = [(RandomInit ''glorot_uniform'', [1, 2, 3, 4]), (Zeros, [5])]
        \<and> dtype (m2 ! 1) = ''float32'')"
proof -
  have h: "(1::nat) < length example_model" "cls (example_model ! 1) \<noteq> InputLayer"
    "\<not> is_linear_activation (example_model ! 1)"
    by (simp_all add: example_model_def is_linear_activation_def)
  from mixed_float16_round_trip [of keras_names zero_sample example_model False no_uids]
  obtain m1 u1 m2 u2 where
    r: "convert_to_mixed_float16 keras_names zero_sample example_model False no_uids = Inr (m1, u1)"
      "convert_mixed_float16_to_float32 keras_names zero_sample m1 u1 = Inr (m2, u2)"
      "length m2 = length example_model"
    and k: "\<forall>k < length example_model. cls (example_model ! k) \<noteq> InputLayer \<longrightarrow>
           name (m2 ! k) = name (example_model ! k) \<and> config (m2 ! k) = config (example_model ! k)
           \<and> trainable (m2 ! k) = trainable (example_model ! k)
           \<and> weights (m2 ! k) = weights (example_model ! k)
           \<and> (\<not> is_linear_activation (example_model ! k) \<longrightarrow> dtype (m2 ! k) = ''float32'')"
    by blast
  from k h have "weights (m2 ! 1) = weights (example_model ! 1)" "dtype (m2 ! 1) = ''float32''"
    by blast+
  then have "weights (m2 ! 1) = [(RandomInit ''glorot_uniform'', [1, 2, 3, 4]), (Zeros, [5])]"
    "dtype (m2 ! 1) = ''float32''" "length m2 = 4"
    using r(3) by (simp_all add: example_model_def)
  with r h show ?thesis by blast
qed

section \<open>Properties of the stochastic-depth conversion\<close>

lemma dict_zip_nth:
  assumes "distinct ks" and "i < length ks" and "i < length vs"
  shows "dict_zip ks vs (ks ! i) = Some (vs ! i)"
proof -
  have "map fst (zip ks vs) = take (min (length ks) (length vs)) ks"
    by (rule map_fst_zip_take)
  with assms(1) have "distinct (map fst (rev (zip ks vs)))"
    by (simp add: rev_map [symmetric])
  moreover have "(ks ! i, vs ! i) \<in> set (rev (zip ks vs))"
    using assms(2,3) by (auto simp: in_set_zip)
  ultimately show ?thesis
    unfolding dict_zip_def by simp
qed

lemma dict_zip_replicate:
  "dict_zip ks (replicate (length ks) p) k = (if k \<in> set ks then Some p else None)"
  unfolding dict_zip_def by (induction ks) (auto simp: map_add_def)

lemma replace_add_layer_gated:
  assumes "isinstance_Add l" and "d (name l) = Some p" and "p < 1"
  shows "replace_add_layer d l u =
    Inr (new_layer StochasticDepth (py_replace ''add_'' ''stochastic_depth_'' (name l))
           [(''survival_probability'', CReal p)], u)"
  using assms by (simp add: replace_add_layer_def Let_def)

lemma replace_add_layer_kept:
  assumes "isinstance_Add l \<longrightarrow> (\<exists>p. d (name l) = Some p \<and> \<not> p < 1)"
  shows "replace_add_layer d l u = Inr (l, u)"
  using assms by (auto simp: replace_add_layer_def Let_def)

lemma filter_nth_take:
  assumes "k < length xs" and "P (xs ! k)"
  shows "length (filter P (take k xs)) < length (filter P xs)
    \<and> filter P xs ! length (filter P (take k xs)) = xs ! k"
proof -
  have "xs = take k xs @ xs ! k # drop (Suc k) xs"
    using assms(1) by (simp add: id_take_nth_drop)
  then have "filter P xs = filter P (take k xs) @ xs ! k # filter P (drop (Suc k) xs)"
    using assms(2) by (metis filter.simps(2) filter_append)
  then show ?thesis
    by (simp add: nth_append)
qed

lemma replace_add_layers_dict:
  assumes "\<And>l. l \<in> set ls \<Longrightarrow> isinstance_Add l \<Longrightarrow> d (name l) \<noteq> None"
  shows "clone_layers i (replace_add_layer d) ls u =
    Inr (map (\<lambda>l. (if cls l = InputLayer then (case i of None \<Rightarrow> l | Some x \<Rightarrow> x)
                     else if isinstance_Add l \<and> the (d (name l)) < 1
                       then new_layer StochasticDepth
                              (py_replace ''add_'' ''stochastic_depth_'' (name l))
                              [(''survival_probability'', CReal (the (d (name l))))]
                     else l) \<lparr>inbound := inbound l\<rparr>) ls, u)"
proof (intro clone_layers_pure_on)
  fix l u assume l: "l \<in> set ls"
  show "replace_add_layer d l u =
    Inr (if isinstance_Add l \<and> the (d (name l)) < 1
         then new_layer StochasticDepth
                (py_replace ''add_'' ''stochastic_depth_'' (name l))
                [(''survival_probability'', CReal (the (d (name l))))]
         else l, u)"
  proof (cases "isinstance_Add l")
    case True
    with assms l obtain p where "d (name l) = Some p"
      by blast
    with True show ?thesis
      by (simp add: replace_add_layer_def Let_def)
  next
    case False
    then show ?thesis
      by (simp add: replace_add_layer_def)
  qed
qed

lemma replace_add_with_schedule:
  assumes r: "resolve_survivals F survivals (length (filter isinstance_Add model)) = Inr sv"
    and len: "length sv = length (filter isinstance_Add model)"
    and dist: "distinct (map name (filter isinstance_Add model)) \<or> (\<exists>p. sv = replicate (length sv) p)"
  shows "\<exists>m u'. replace_add_with_stochastic_depth F dn model survivals u = Inr (m, u')
    \<and> length m = length model
    \<and> (\<forall>k < length model. cls (model ! k) \<noteq> InputLayer \<longrightarrow>
          m ! k = (if isinstance_Add (model ! k)
                      \<and> sv ! length (filter isinstance_Add (take k model)) < 1
                   then new_layer StochasticDepth
                          (py_replace ''add_'' ''stochastic_depth_'' (name (model ! k)))
                          [(''survival_probability'',
                            CReal (sv ! length (filter isinstance_Add (take k model))))]
                          \<lparr>inbound := inbound (model ! k)\<rparr>
                   else model ! k))"
proof -
  let ?adds = "filter isinstance_Add model"
  let ?d = "dict_zip (map name ?adds) sv"
  have look: "?d (name (model ! k)) = Some (sv ! length (filter isinstance_Add (take k model)))"
    if "k < length model" "isinstance_Add (model ! k)" for k
  proof -
    let ?i = "length (filter isinstance_Add (take k model))"
    from filter_nth_take [of k model isinstance_Add, OF that] have i: "?i < length ?adds" and n: "?adds ! ?i = model ! k"
      by simp_all
    from dist show ?thesis
    proof
      assume "distinct (map name ?adds)"
      then have "?d (map name ?adds ! ?i) = Some (sv ! ?i)"
        using i len by (intro dict_zip_nth) simp_all
      with i n show ?thesis by simp
    next
      assume "\<exists>p. sv = replicate (length sv) p"
      then obtain p where p: "sv = replicate (length ?adds) p"
        using len by auto
      have "model ! k \<in> set ?adds"
        using that by simp
      then have "name (model ! k) \<in> name ` set ?adds"
        by (rule imageI)
      then have "name (model ! k) \<in> set (map name ?adds)"
        by (simp only: set_map)
      then have "dict_zip (map name ?adds) (replicate (length (map name ?adds)) p) (name (model ! k)) = Some p"
        by (simp only: dict_zip_replicate if_True)
      moreover have "sv ! ?i = p"
        using p i by (metis nth_replicate)
      ultimately show ?thesis
        using p by simp
    qed
  qed
  have "?d (name l) \<noteq> None" if "l \<in> set model" "isinstance_Add l" for l
  proof -
    from that(1) obtain k where "k < length model" "model ! k = l"
      by (auto simp: in_set_conv_nth)
    with look [of k] that(2) show ?thesis by auto
  qed
  then have c: "clone_layers i (replace_add_layer ?d) model v =
    Inr (map (\<lambda>l. (if cls l = InputLayer then (case i of None \<Rightarrow> l | Some x \<Rightarrow> x)
                     else if isinstance_Add l \<and> the (?d (name l)) < 1
                       then new_layer StochasticDepth
                              (py_replace ''add_'' ''stochastic_depth_'' (name l))
                              [(''survival_probability'', CReal (the (?d (name l))))]
                     else l) \<lparr>inbound := inbound l\<rparr>) model, v)" for i v
    by (intro replace_add_layers_dict)
  obtain inp u' where inp: "Input dn (model_input_shape model) u = (inp, u')"
    by (cases "Input dn (model_input_shape model) u")
  have run: "replace_add_with_stochastic_depth F dn model survivals u =
      clone_layers (Some inp) (replace_add_layer ?d) model u'"
    using r inp by (simp add: replace_add_with_stochastic_depth_def Let_def)
  show ?thesis
  proof (intro exI conjI allI impI)
    show "replace_add_with_stochastic_depth F dn model survivals u =
      Inr (map (\<lambda>l. (if cls l = InputLayer then inp
                     else if isinstance_Add l \<and> the (?d (name l)) < 1
                       then new_layer StochasticDepth
                              (py_replace ''add_'' ''stochastic_depth_'' (name l))
                              [(''survival_probability'', CReal (the (?d (name l))))]
                     else l) \<lparr>inbound := inbound l\<rparr>) model, u')"
      unfolding run c by simp
    show "length (map (\<lambda>l. (if cls l = InputLayer then inp
                     else if isinstance_Add l \<and> the (?d (name l)) < 1
                       then new_layer StochasticDepth
                              (py_replace ''add_'' ''stochastic_depth_'' (name l))
                              [(''survival_probability'', CReal (the (?d (name l))))]
                     else l) \<lparr>inbound := inbound l\<rparr>) model) = length model"
      by simp
  next
    fix k assume k: "k < length model" "cls (model ! k) \<noteq> InputLayer"
    show "map (\<lambda>l. (if cls l = InputLayer then inp
                     else if isinstance_Add l \<and> the (?d (name l)) < 1
                       then new_layer StochasticDepth
                              (py_replace ''add_'' ''stochastic_depth_'' (name l))
                              [(''survival_probability'', CReal (the (?d (name l))))]
                     else l) \<lparr>inbound := inbound l\<rparr>) model ! k =
          (if isinstance_Add (model ! k)
                      \<and> sv ! length (filter isinstance_Add (take k model)) < 1
                   then new_layer StochasticDepth
                          (py_replace ''add_'' ''stochastic_depth_'' (name (model ! k)))
                          [(''survival_probability'',
                            CReal (sv ! length (filter isinstance_Add (take k model))))]
                          \<lparr>inbound := inbound (model ! k)\<rparr>
                   else model ! k)"
    proof (cases "isinstance_Add (model ! k)")
      case True
      with look [OF k(1)] k show ?thesis by simp
    next
      case False
      with k show ?thesis by simp
    qed
  qed
qed

lemma linear_survival_exact:
  "to_real (linear_survival exact_floats start end i total_adds) =
     to_real start - (1 - to_real end) * real i / real total_adds"
  by (cases start; cases "end")
     (simp_all add: linear_survival_def py_sub_def py_mul_def py_div_def to_float_def exact_floats_def)

lemma replace_add_constant_one:
  "replace_add_with_stochastic_depth F dn model (Single (PyFloat 1)) u =
     Inr (map (\<lambda>l. (if cls l = InputLayer then fst (Input dn (model_input_shape model) u) else l)
                     \<lparr>inbound := inbound l\<rparr>) model,
          snd (Input dn (model_input_shape model) u))"
proof -
  let ?ks = "map name (filter isinstance_Add model)"
  have "replace_add_layer (dict_zip ?ks (replicate (length ?ks) 1)) l v = Inr (l, v)"
    if "l \<in> set model" for l v
    using that dict_zip_replicate [of "map name (filter isinstance_Add model)" 1 "name l"]
    by (intro replace_add_layer_kept) auto
  then have "clone_layers i (replace_add_layer (dict_zip ?ks (replicate (length ?ks) 1))) model v =
      Inr (map (\<lambda>l. (if cls l = InputLayer then (case i of None \<Rightarrow> l | Some x \<Rightarrow> x) else l)
                  \<lparr>inbound := inbound l\<rparr>) model, v)" for i v
    by (intro clone_layers_pure_on) simp
  then show ?thesis
    by (simp add: replace_add_with_stochastic_depth_def resolve_survivals_def Let_def
        split: prod.splits)
qed

text \<open>
  C5 (as the code has it), of the model that \<^verbatim>\<open>replace_add_with_stochastic_depth\<close>
  returns, layer by layer; \<open>total_adds\<close> is the number of additions of the model, and
  the addition at position \<open>k\<close> of \<^verbatim>\<open>model.layers\<close> is the \<open>i\<close>-th one when \<open>i\<close>
  additions stand before it.

  \<^item> With a single float \<open>p\<close> the call succeeds, and every addition is treated with
    \<open>p\<close>: if \<open>p < 1\<close> it becomes a stochastic-depth layer with survival probability
    \<open>p\<close>, on the same inputs; every other layer but the input placeholder is returned
    as it was.
  \<^item> With a pair \<open>(start, end)\<close>, layer names being distinct, the call succeeds and
    the \<open>i\<close>-th addition is treated with what Python computes for
    \<^verbatim>\<open>start - (1 - end) * float(i) / total_adds\<close>.
  \<^item> In exact arithmetic that number is \<open>start - (1 - end) * i / total_adds\<close>.
  \<^item> With the constant \<open>1.0\<close> the call succeeds and returns every layer but the
    input placeholder as it was.
\<close>

theorem survival_schedule_applied:
  "(\<exists>m u'. replace_add_with_stochastic_depth F dn model (Single (PyFloat p)) u = Inr (m, u')
      \<and> length m = length model
      \<and> (\<forall>k < length model. cls (model ! k) \<noteq> InputLayer \<longrightarrow>
            m ! k = (if isinstance_Add (model ! k) \<and> p < 1
                     then new_layer StochasticDepth
                            (py_replace ''add_'' ''stochastic_depth_'' (name (model ! k)))
                            [(''survival_probability'', CReal p)]
                            \<lparr>inbound := inbound (model ! k)\<rparr>
                     else model ! k)))
   \<and> (distinct (map name (filter isinstance_Add model)) \<longrightarrow>
        (\<exists>m u'. replace_add_with_stochastic_depth F dn model (Seq [start, end]) u = Inr (m, u')
           \<and> length m = length model
           \<and> (\<forall>k < length model. cls (model ! k) \<noteq> InputLayer \<longrightarrow>
                 m ! k =
                   (let i = length (filter isinstance_Add (take k model));
                        total_adds = length (filter isinstance_Add model);
                        survival = to_real (linear_survival F start end i total_adds)
                    in if isinstance_Add (model ! k) \<and> survival < 1
                       then new_layer StochasticDepth
                              (py_replace ''add_'' ''stochastic_depth_'' (name (model ! k)))
                              [(''survival_probability'', CReal survival)]
                              \<lparr>inbound := inbound (model ! k)\<rparr>
                       else model ! k))))
   \<and> to_real (linear_survival exact_floats start end j n) =
        to_real start - (1 - to_real end) * real j / real n
   \<and> (\<exists>m u'. replace_add_with_stochastic_depth F dn model (Single (PyFloat 1)) u = Inr (m, u')
        \<and> length m = length model
        \<and> (\<forall>k < length model. cls (model ! k) \<noteq> InputLayer \<longrightarrow> m ! k = model ! k))"
proof -
  let ?n = "length (filter isinstance_Add model)"
  have idx: "length (filter isinstance_Add (take k model)) < ?n"
    if "k < length model" "isinstance_Add (model ! k)" for k
    using filter_nth_take [of k model isinstance_Add, OF that] by simp
  have "resolve_survivals F (Single (PyFloat p)) ?n = Inr (replicate ?n p)"
    by (simp add: resolve_survivals_def)
  from replace_add_with_schedule [OF this, of dn u]
  obtain m u' where a:
    "replace_add_with_stochastic_depth F dn model (Single (PyFloat p)) u = Inr (m, u')"
    "length m = length model"
    "\<And>k. k < length model \<Longrightarrow> cls (model ! k) \<noteq> InputLayer \<Longrightarrow>
          m ! k = (if isinstance_Add (model ! k)
                      \<and> replicate ?n p ! length (filter isinstance_Add (take k model)) < 1
                   then new_layer StochasticDepth
                          (py_replace ''add_'' ''stochastic_depth_'' (name (model ! k)))
                          [(''survival_probability'',
                            CReal (replicate ?n p ! length (filter isinstance_Add (take k model))))]
                          \<lparr>inbound := inbound (model ! k)\<rparr>
                   else model ! k)"
    by auto
  have single: "\<exists>m u'. replace_add_with_stochastic_depth F dn model (Single (PyFloat p)) u = Inr (m, u')
      \<and> length m = length model
      \<and> (\<forall>k < length model. cls (model ! k) \<noteq> InputLayer \<longrightarrow>
            m ! k = (if isinstance_Add (model ! k) \<and> p < 1
                     then new_layer StochasticDepth
                            (py_replace ''add_'' ''stochastic_depth_'' (name (model ! k)))
                            [(''survival_probability'', CReal p)]
                            \<lparr>inbound := inbound (model ! k)\<rparr>
                     else model ! k))"
  proof (intro exI conjI allI impI)
    show "replace_add_with_stochastic_depth F dn model (Single (PyFloat p)) u = Inr (m, u')"
      by (rule a(1))
    show "length m = length model"
      by (rule a(2))
  next
    fix k assume k: "k < length model" "cls (model ! k) \<noteq> InputLayer"
    show "m ! k = (if isinstance_Add (model ! k) \<and> p < 1
                     then new_layer StochasticDepth
                            (py_replace ''add_'' ''stochastic_depth_'' (name (model ! k)))
                            [(''survival_probability'', CReal p)]
                            \<lparr>inbound := inbound (model ! k)\<rparr>
                     else model ! k)"
      using a(3) [OF k] idx [OF k(1)] by (cases "isinstance_Add (model ! k)") simp_all
  qed
  have pair: "\<exists>m u'. replace_add_with_stochastic_depth F dn model (Seq [start, end]) u = Inr (m, u')
           \<and> length m = length model
           \<and> (\<forall>k < length model. cls (model ! k) \<noteq> InputLayer \<longrightarrow>
                 m ! k =
                   (let i = length (filter isinstance_Add (take k model));
                        total_adds = length (filter isinstance_Add model);
                        survival = to_real (linear_survival F start end i total_adds)
                    in if isinstance_Add (model ! k) \<and> survival < 1
                       then new_layer StochasticDepth
                              (py_replace ''add_'' ''stochastic_depth_'' (name (model ! k)))
                              [(''survival_probability'', CReal survival)]
                              \<lparr>inbound := inbound (model ! k)\<rparr>
                       else model ! k))"
    if dist: "distinct (map name (filter isinstance_Add model))"
  proof -
    let ?sv = "map (\<lambda>ii. to_real (linear_survival F start end ii ?n)) [0..<?n]"
    have "resolve_survivals F (Seq [start, end]) ?n = Inr ?sv"
      by (simp add: resolve_survivals_def)
    from replace_add_with_schedule [OF this, of dn u] dist
    obtain m u' where b:
      "replace_add_with_stochastic_depth F dn model (Seq [start, end]) u = Inr (m, u')"
      "length m = length model"
      "\<And>k. k < length model \<Longrightarrow> cls (model ! k) \<noteq> InputLayer \<Longrightarrow>
          m ! k = (if isinstance_Add (model ! k)
                      \<and> ?sv ! length (filter isinstance_Add (take k model)) < 1
                   then new_layer StochasticDepth
                          (py_replace ''add_'' ''stochastic_depth_'' (name (model ! k)))
                          [(''survival_probability'',
                            CReal (?sv ! length (filter isinstance_Add (take k model))))]
                          \<lparr>inbound := inbound (model ! k)\<rparr>
                   else model ! k)"
      by auto
    show ?thesis
    proof (intro exI conjI allI impI)
      show "replace_add_with_stochastic_depth F dn model (Seq [start, end]) u = Inr (m, u')"
        by (rule b(1))
      show "length m = length model"
        by (rule b(2))
    next
      fix k assume k: "k < length model" "cls (model ! k) \<noteq> InputLayer"
      show "m ! k =
                   (let i = length (filter isinstance_Add (take k model));
                        total_adds = length (filter isinstance_Add model);
                        survival = to_real (linear_survival F start end i total_adds)
                    in if isinstance_Add (model ! k) \<and> survival < 1
                       then new_layer StochasticDepth
                              (py_replace ''add_'' ''stochastic_depth_'' (name (model ! k)))
                              [(''survival_probability'', CReal survival)]
                              \<lparr>inbound := inbound (model ! k)\<rparr>
                       else model ! k)"
        using b(3) [OF k] idx [OF k(1)]
        by (cases "isinstance_Add (model ! k)") (simp_all add: Let_def)
    qed
  qed
  have one: "\<exists>m u'. replace_add_with_stochastic_depth F dn model (Single (PyFloat 1)) u = Inr (m, u')
        \<and> length m = length model
        \<and> (\<forall>k < length model. cls (model ! k) \<noteq> InputLayer \<longrightarrow> m ! k = model ! k)"
    unfolding replace_add_constant_one by simp
  from single pair linear_survival_exact one show ?thesis
    by blast
qed

theorem survival_schedule_applied_witness:
  "distinct (map name (filter isinstance_Add three_add_model))
   \<and> (\<exists>m u'. replace_add_with_stochastic_depth exact_floats keras_names three_add_model
                 (Seq [PyFloat 1, PyFloat (1 / 4)]) no_uids = Inr (m, u')
        \<and> length m = 5
        \<and> m ! 1 = three_add_model ! 1
        \<and> m ! 2 = three_add_model ! 2
        \<and> m ! 3 = new_layer StochasticDepth ''stochastic_depth_2''
                     [(''survival_probability'', CReal (3 / 4))] \<lparr>inbound := [1, 2]\<rparr>
        \<and> m ! 4 = new_layer StochasticDepth ''block3_add''
                     [(''survival_probability'', CReal (1 / 2))] \<lparr>inbound := [2, 3]\<rparr>)
   \<and> (\<exists>m u'. replace_add_with_stochastic_depth exact_floats keras_names three_add_model
                 (Single (PyFloat (1 / 2))) no_uids = Inr (m, u')
        \<and> m ! 1 = new_layer StochasticDepth ''block1_add''
                     [(''survival_probability'', CReal (1 / 2))] \<lparr>inbound := [0, 0]\<rparr>
        \<and> m ! 2 = three_add_model ! 2
        \<and> m ! 3 = new_layer StochasticDepth ''stochastic_depth_2''
                     [(''survival_probability'', CReal (1 / 2))] \<lparr>inbound := [1, 2]\<rparr>
        \<and> m ! 4 = new_layer StochasticDepth ''block3_add''
                     [(''survival_probability'', CReal (1 / 2))] \<lparr>inbound := [2, 3]\<rparr>)
   \<and> (\<exists>m u'. replace_add_with_stochastic_depth exact_floats keras_names three_add_model
                 (Single (PyFloat 1)) no_uids = Inr (m, u')
        \<and> m ! 1 = three_add_model ! 1 \<and> m ! 2 = three_add_model ! 2
        \<and> m ! 3 = three_add_model ! 3 \<and> m ! 4 = three_add_model ! 4)"
proof -
  note t = survival_schedule_applied [of exact_floats keras_names three_add_model "1 / 2" no_uids
      "PyFloat 1" "PyFloat (1 / 4)" 1 3]
  have len: "length three_add_model = 5"
    by (simp add: three_add_model_def)
  have k: "(1::nat) < 5" "(2::nat) < 5" "(3::nat) < 5" "(4::nat) < 5"
    by simp_all
  have l1: "cls (three_add_model ! 1) \<noteq> InputLayer" "isinstance_Add (three_add_model ! 1)"
      "name (three_add_model ! 1) = ''block1_add''" "inbound (three_add_model ! 1) = [0, 0]"
      "length (filter isinstance_Add (take 1 three_add_model)) = 0"
      "isinstance_Add (three_add_model ! Suc 0)"
    by (simp_all add: three_add_model_def isinstance_Add_def)
  have l2: "cls (three_add_model ! 2) \<noteq> InputLayer" "\<not> isinstance_Add (three_add_model ! 2)"
    by (simp_all add: three_add_model_def isinstance_Add_def)
  have l3: "cls (three_add_model ! 3) \<noteq> InputLayer" "isinstance_Add (three_add_model ! 3)"
      "name (three_add_model ! 3) = ''add_2''" "inbound (three_add_model ! 3) = [1, 2]"
      "length (filter isinstance_Add (take 3 three_add_model)) = 1"
    by (simp_all add: three_add_model_def isinstance_Add_def numeral_3_eq_3)
  have l4: "cls (three_add_model ! 4) \<noteq> InputLayer" "isinstance_Add (three_add_model ! 4)"
      "name (three_add_model ! 4) = ''block3_add''" "inbound (three_add_model ! 4) = [2, 3]"
      "length (filter isinstance_Add (take 4 three_add_model)) = 2"
    by (simp_all add: three_add_model_def isinstance_Add_def eval_nat_numeral)
  have tot: "length (filter isinstance_Add three_add_model) = 3"
    by (simp add: three_add_model_def isinstance_Add_def)
  have dist: "distinct (map name (filter isinstance_Add three_add_model))"
    by (simp add: three_add_model_def isinstance_Add_def)
  have sv: "to_real (linear_survival exact_floats (PyFloat 1) (PyFloat (1 / 4)) 0 3) = 1"
      "to_real (linear_survival exact_floats (PyFloat 1) (PyFloat (1 / 4)) 1 3) = 3 / 4"
      "to_real (linear_survival exact_floats (PyFloat 1) (PyFloat (1 / 4)) 2 3) = 1 / 2"
    by (simp_all add: linear_survival_def py_sub_def py_mul_def py_div_def to_float_def
        exact_floats_def)
  have n: "py_replace ''add_'' ''stochastic_depth_'' ''block1_add'' = ''block1_add''"
      "py_replace ''add_'' ''stochastic_depth_'' ''add_2'' = ''stochastic_depth_2''"
      "py_replace ''add_'' ''stochastic_depth_'' ''block3_add'' = ''block3_add''"
    by simp_all
  from t dist obtain m u' where p:
    "replace_add_with_stochastic_depth exact_floats keras_names three_add_model
       (Seq [PyFloat 1, PyFloat (1 / 4)]) no_uids = Inr (m, u')"
    "length m = length three_add_model"
    "\<forall>k < length three_add_model. cls (three_add_model ! k) \<noteq> InputLayer \<longrightarrow>
       m ! k =
         (let i = length (filter isinstance_Add (take k three_add_model));
              total_adds = length (filter isinstance_Add three_add_model);
              survival = to_real (linear_survival exact_floats (PyFloat 1) (PyFloat (1 / 4)) i total_adds)
          in if isinstance_Add (three_add_model ! k) \<and> survival < 1
             then new_layer StochasticDepth
                    (py_replace ''add_'' ''stochastic_depth_'' (name (three_add_model ! k)))
                    [(''survival_probability'', CReal survival)]
                    \<lparr>inbound := inbound (three_add_model ! k)\<rparr>
             else three_add_model ! k)"
    by blast
  have pair: "\<exists>m u'. replace_add_with_stochastic_depth exact_floats keras_names three_add_model
                 (Seq [PyFloat 1, PyFloat (1 / 4)]) no_uids = Inr (m, u')
        \<and> length m = 5
        \<and> m ! 1 = three_add_model ! 1
        \<and> m ! 2 = three_add_model ! 2
        \<and> m ! 3 = new_layer StochasticDepth ''stochastic_depth_2''
                     [(''survival_probability'', CReal (3 / 4))] \<lparr>inbound := [1, 2]\<rparr>
        \<and> m ! 4 = new_layer StochasticDepth ''block3_add''
                     [(''survival_probability'', CReal (1 / 2))] \<lparr>inbound := [2, 3]\<rparr>"
  proof (intro exI conjI)
    show "replace_add_with_stochastic_depth exact_floats keras_names three_add_model
                 (Seq [PyFloat 1, PyFloat (1 / 4)]) no_uids = Inr (m, u')"
      by (rule p(1))
    show "length m = 5"
      using p(2) len by simp
    show "m ! 1 = three_add_model ! 1"
      using p(3) [unfolded len, rule_format, OF k(1) l1(1)] unfolding Let_def l1 tot sv n by (simp add: l1)
    show "m ! 2 = three_add_model ! 2"
      using p(3) [unfolded len, rule_format, OF k(2) l2(1)] by (simp add: l2 Let_def)
    show "m ! 3 = new_layer StochasticDepth ''stochastic_depth_2''
                     [(''survival_probability'', CReal (3 / 4))] \<lparr>inbound := [1, 2]\<rparr>"
      using p(3) [unfolded len, rule_format, OF k(3) l3(1)] unfolding Let_def l3 tot sv n by (simp add: l3)
    show "m ! 4 = new_layer StochasticDepth ''block3_add''
                     [(''survival_probability'', CReal (1 / 2))] \<lparr>inbound := [2, 3]\<rparr>"
      using p(3) [unfolded len, rule_format, OF k(4) l4(1)] unfolding Let_def l4 tot sv n by (simp add: l4)
  qed
  from t obtain m1 u1 where q:
    "replace_add_with_stochastic_depth exact_floats keras_names three_add_model
       (Single (PyFloat (1 / 2))) no_uids = Inr (m1, u1)"
    "\<forall>k < length three_add_model. cls (three_add_model ! k) \<noteq> InputLayer \<longrightarrow>
       m1 ! k = (if isinstance_Add (three_add_model ! k) \<and> (1 / 2 :: real) < 1
                 then new_layer StochasticDepth
                        (py_replace ''add_'' ''stochastic_depth_'' (name (three_add_model ! k)))
                        [(''survival_probability'', CReal (1 / 2))]
                        \<lparr>inbound := inbound (three_add_model ! k)\<rparr>
                 else three_add_model ! k)"
    by blast
  have single: "\<exists>m u'. replace_add_with_stochastic_depth exact_floats keras_names three_add_model
                 (Single (PyFloat (1 / 2))) no_uids = Inr (m, u')
        \<and> m ! 1 = new_layer StochasticDepth ''block1_add''
                     [(''survival_probability'', CReal (1 / 2))] \<lparr>inbound := [0, 0]\<rparr>
        \<and> m ! 2 = three_add_model ! 2
        \<and> m ! 3 = new_layer StochasticDepth ''stochastic_depth_2''
                     [(''survival_probability'', CReal (1 / 2))] \<lparr>inbound := [1, 2]\<rparr>
        \<and> m ! 4 = new_layer StochasticDepth ''block3_add''
                     [(''survival_probability'', CReal (1 / 2))] \<lparr>inbound := [2, 3]\<rparr>"
  proof (intro exI conjI)
    show "replace_add_with_stochastic_depth exact_floats keras_names three_add_model
                 (Single (PyFloat (1 / 2))) no_uids = Inr (m1, u1)"
      by (rule q(1))
    show "m1 ! 1 = new_layer StochasticDepth ''block1_add''
                     [(''survival_probability'', CReal (1 / 2))] \<lparr>inbound := [0, 0]\<rparr>"
      using q(2) [unfolded len, rule_format, OF k(1) l1(1)] unfolding l1 n by (simp add: l1)
    show "m1 ! 2 = three_add_model ! 2"
      using q(2) [unfolded len, rule_format, OF k(2) l2(1)] by (simp add: l2)
    show "m1 ! 3 = new_layer StochasticDepth ''stochastic_depth_2''
                     [(''survival_probability'', CReal (1 / 2))] \<lparr>inbound := [1, 2]\<rparr>"
      using q(2) [unfolded len, rule_format, OF k(3) l3(1)] unfolding l3 n by (simp add: l3)
    show "m1 ! 4 = new_layer StochasticDepth ''block3_add''
                     [(''survival_probability'', CReal (1 / 2))] \<lparr>inbound := [2, 3]\<rparr>"
      using q(2) [unfolded len, rule_format, OF k(4) l4(1)] unfolding l4 n by (simp add: l4)
  qed
  from t obtain m2 u2 where r:
    "replace_add_with_stochastic_depth exact_floats keras_names three_add_model
       (Single (PyFloat 1)) no_uids = Inr (m2, u2)"
    "\<forall>k < length three_add_model. cls (three_add_model ! k) \<noteq> InputLayer \<longrightarrow>
       m2 ! k = three_add_model ! k"
    by blast
  have one: "\<exists>m u'. replace_add_with_stochastic_depth exact_floats keras_names three_add_model
                 (Single (PyFloat 1)) no_uids = Inr (m, u')
        \<and> m ! 1 = three_add_model ! 1 \<and> m ! 2 = three_add_model ! 2
        \<and> m ! 3 = three_add_model ! 3 \<and> m ! 4 = three_add_model ! 4"
    using r(1) r(2) [unfolded len, rule_format, OF k(1) l1(1)]
      r(2) [unfolded len, rule_format, OF k(2) l2(1)]
      r(2) [unfolded len, rule_format, OF k(3) l3(1)]
      r(2) [unfolded len, rule_format, OF k(4) l4(1)]
    by blast
  from dist pair single one show ?thesis
    by blast
qed

text \<open>
  C5 (as the specification states it) fails for a single number that is an integer:
  the schedule is not resolved and the conversion ends in a TypeError.
\<close>

theorem survival_single_int_counterexample:
  "replace_add_with_stochastic_depth exact_floats keras_names example_model (Single (PyInt 1)) no_uids
     = Inl TypeError"
  by (simp add: replace_add_with_stochastic_depth_def resolve_survivals_def Let_def)

text \<open>
  C4, at the addition \<^verbatim>\<open>head_add\<close> with survival probability \<open>1/2\<close>: the first
  replacement would give \<^verbatim>\<open>head_stochastic_depth\<close>, but its result is overwritten by
  the second replacement, applied to the original name, which has no \<^verbatim>\<open>add_\<close>; the
  gated layer keeps the name \<^verbatim>\<open>head_add\<close>.
\<close>

theorem replace_add_name_not_renamed:
  "map_sum id (\<lambda>r. (cls (fst r ! 3), name (fst r ! 3)))
     (replace_add_with_stochastic_depth exact_floats keras_names example_model
        (Single (PyFloat (1 / 2))) no_uids)
     = Inr (StochasticDepth, ''head_add'')
   \<and> py_replace ''_add'' ''_stochastic_depth'' (name (example_model ! 3)) = ''head_stochastic_depth''"
  by (simp add: replace_add_with_stochastic_depth_def resolve_survivals_def Let_def
      example_model_def isinstance_Add_def dict_zip_def Input_def fresh_name_def
      replace_add_layer_def new_layer_def)

section \<open>Properties of the ReLU replacement\<close>

lemma convert_ReLU_other:
  assumes "\<not> is_relu l"
  shows "convert_ReLU dn target kwargs l u = Inr (l, u)"
  using assms by (simp add: convert_ReLU_def)

lemma convert_ReLU_prelu:
  assumes "is_relu l"
  shows "convert_ReLU dn (TargetStr ''PReLU'') [] l u =
    Inr (new_layer PReLU (py_replace ''_relu'' ''_prelu'' (name l))
           [(''shared_axes'', CList [CInt 1, CInt 2]), (''alpha_initializer'', CReal 0.25)], u)"
  using assms by (simp add: convert_ReLU_def Let_def)

lemma convert_ReLU_named:
  assumes "is_relu l" and "t \<noteq> ''PReLU''"
  shows "convert_ReLU dn (TargetStr t) [] l u =
    Inr (new_layer Activation (py_replace ''_relu'' (''_'' @ t) (name l)) [(''activation'', CStr t)], u)"
  using assms by (simp add: convert_ReLU_def Let_def)

text \<open>
  With a layer class as target, the name of the new layer is the one Keras generates
  from the class and its counter; the name of the layer replaced has no part in it.
\<close>

lemma convert_ReLU_class:
  assumes "is_relu l"
  shows "convert_ReLU dn (TargetClass c stem) [] l u =
    Inr (new_layer (OtherLayer c) (dn stem (u stem)) [], u(stem := Suc (u stem)))"
  using assms by (simp add: convert_ReLU_def Let_def fresh_name_def)

lemma replace_ReLU_length:
  assumes "replace_ReLU dn model target kwargs u = Inr (m, u')"
  shows "length m = length model \<and> map inbound m = map inbound model"
  using assms
  by (auto simp: replace_ReLU_def split: prod.splits
      dest: clone_layers_length clone_layers_inbound)

text \<open>
  C6, at the rectifier \<^verbatim>\<open>head_relu\<close> with the layer class \<^verbatim>\<open>LeakyReLU\<close> as target:
  the name computed from the original, \<^verbatim>\<open>head_LeakyReLU\<close>, is not passed to the
  constructor, and the new layer carries the generated name \<^verbatim>\<open>leaky_re_lu\<close>.
\<close>

theorem replace_ReLU_class_name_not_passed:
  "map_sum id (\<lambda>r. (cls (fst r ! 2), name (fst r ! 2)))
     (replace_ReLU keras_names example_model (TargetClass ''LeakyReLU'' ''leaky_re_lu'') [] no_uids)
     = Inr (OtherLayer ''LeakyReLU'', ''leaky_re_lu'')
   \<and> py_replace ''_relu'' (''_'' @ ''LeakyReLU'') (name (example_model ! 2)) = ''head_LeakyReLU''"
  by (simp add: replace_ReLU_def example_model_def Input_def fresh_name_def convert_ReLU_def
      is_relu_def new_layer_def keras_names_def no_uids_def Let_def)

section \<open>Properties of the L2 regularizer\<close>

lemma set_regularizers_frame:
  "cls (set_regularizers wd bn bias l) = cls l \<and> name (set_regularizers wd bn bias l) = name l
   \<and> weights (set_regularizers wd bn bias l) = weights l
   \<and> inbound (set_regularizers wd bn bias l) = inbound l"
proof -
  have "cls (fold (\<lambda>attr l. if trainable l then setattr l attr v else l) as l) = cls l
      \<and> name (fold (\<lambda>attr l. if trainable l then setattr l attr v else l) as l) = name l
      \<and> weights (fold (\<lambda>attr l. if trainable l then setattr l attr v else l) as l) = weights l
      \<and> inbound (fold (\<lambda>attr l. if trainable l then setattr l attr v else l) as l) = inbound l"
    for as v
    by (induction as arbitrary: l) (simp_all add: setattr_def)
  then show ?thesis by (simp add: set_regularizers_def)
qed

text \<open>
  The model returned has the layers of the argument, rebuilt from their configurations:
  same classes, names and connections, and in every variable the value its initializer
  gives.
\<close>

lemma add_l2_regularizer_2_model_result:
  "add_l2_regularizer_2_model sample model wd bn bias u =
     Inr (map (\<lambda>l. if cls l = InputLayer then set_regularizers wd bn bias l
                    else from_config_built sample (set_regularizers wd bn bias l)) model, u)"
proof -
  have "clone_layers None (default_clone sample) ls u =
      Inr (map (\<lambda>l. if cls l = InputLayer then l else from_config_built sample l) ls, u)" for ls
    by (induction ls) (simp_all add: default_clone_def from_config_built_def)
  then show ?thesis
    by (simp add: add_l2_regularizer_2_model_def comp_def set_regularizers_frame)
qed

text \<open>
  C3, at the example model, whose dense layer \<^verbatim>\<open>head\<close> has the kernel \<open>[1, 2, 3, 4]\<close>
  and the bias \<open>[5]\<close>: the model returned has the same layer names and the kernel
  regularizer in the configuration of \<^verbatim>\<open>head\<close>, but the kernel is a fresh draw of
  its initializer and the bias is \<open>[0]\<close>.
\<close>

theorem add_l2_regularizer_weights_not_kept:
  "map_sum id (\<lambda>r. (map name (fst r), config (fst r ! 1), get_weights (fst r ! 1)))
     (add_l2_regularizer_2_model sample example_model (1 / 1000) False False no_uids)
     = Inr ([''input_1'', ''head'', ''head_relu'', ''head_add''],
            [(''units'', CInt 1), (''use_bias'', CBool True), (''kernel_regularizer'', CL2 (1 / 2000))],
            [map (sample ''glorot_uniform'') [0, 1, 2, 3], [0]])
   \<and> get_weights (example_model ! 1) = [[1, 2, 3, 4], [5]]"
  by (simp add: add_l2_regularizer_2_model_result example_model_def set_regularizers_def
      regularizer_attrs_def setattr_def from_config_built_def initial_value_def get_weights_def
      upt_rec_numeral numeral_2_eq_2 numeral_3_eq_3)

section \<open>Properties of the LeViT builder\<close>

text \<open>Which classes of layers each part of the builder adds to the graph.\<close>

named_theorems creates

lemma creates_only_ret [creates]: "creates_only S (ret a)"
  by (simp add: creates_only_def ret_def)

lemma creates_only_raise [creates]: "creates_only S (raise e)"
  by (simp add: creates_only_def raise_def)

lemma creates_only_then_do [creates]:
  assumes "creates_only S m" and "\<And>a. creates_only S (f a)"
  shows "creates_only S (then_do m f)"
  unfolding creates_only_def
proof (intro allI impI)
  fix g b g'
  assume r: "then_do m f g = Inr (b, g')"
  then obtain a g1 where m: "m g = Inr (a, g1)" and f: "f a g1 = Inr (b, g')"
    by (auto simp: then_do_def split: sum.splits)
  from assms(1) m obtain n1 where n1: "g_layers g1 = g_layers g @ n1" "\<forall>l \<in> set n1. cls l \<in> S"
    unfolding creates_only_def by blast
  from assms(2) f obtain n2 where n2: "g_layers g' = g_layers g1 @ n2" "\<forall>l \<in> set n2. cls l \<in> S"
    unfolding creates_only_def by blast
  from n1 n2 have "g_layers g' = g_layers g @ (n1 @ n2) \<and> (\<forall>l \<in> set (n1 @ n2). cls l \<in> S)"
    by auto
  then show "\<exists>new. g_layers g' = g_layers g @ new \<and> (\<forall>l \<in> set new. cls l \<in> S)"
    by blast
qed

lemma creates_only_for_each [creates]:
  assumes "\<And>i a. creates_only S (body i a)"
  shows "creates_only S (for_each body is a)"
  by (induction "is" arbitrary: a) (auto intro: creates assms)

lemma creates_only_if [creates]:
  assumes "c \<Longrightarrow> creates_only S x" and "\<not> c \<Longrightarrow> creates_only S y"
  shows "creates_only S (if c then x else y)"
  using assms by simp

lemma creates_only_call_layer [creates]:
  assumes "c \<in> S"
  shows "creates_only S (call_layer c n conf inputs shp)"
  using assms by (auto simp: creates_only_def call_layer_def)

lemma creates_only_call_unnamed [creates]:
  assumes "c \<in> S"
  shows "creates_only S (call_unnamed c stem conf inputs shp)"
  using assms by (auto simp: creates_only_def call_unnamed_def call_layer_def split: prod.splits)

lemma creates_only_tf_op [creates]:
  assumes "TFOpLambda \<in> S"
  shows "creates_only S (tf_op opname conf inputs shp)"
  unfolding tf_op_def using assms by (rule creates_only_call_unnamed)

lemma creates_only_same_shape_layer [creates]:
  assumes "c \<in> S"
  shows "creates_only S (same_shape_layer c n conf x)"
  unfolding same_shape_layer_def using assms by (rule creates_only_call_layer)

lemma creates_only_reshape [creates]:
  assumes "TFOpLambda \<in> S"
  shows "creates_only S (reshape x shp)"
  unfolding reshape_def using assms by (rule creates_only_tf_op)

lemma creates_only_transpose [creates]:
  assumes "TFOpLambda \<in> S"
  shows "creates_only S (transpose_0213 x)"
  unfolding transpose_0213_def using assms
  by (auto intro!: creates split: list.splits)

lemma creates_only_split_last [creates]:
  assumes "TFOpLambda \<in> S"
  shows "creates_only S (split_last x sizes)"
  unfolding split_last_def using assms
  by (auto intro!: creates)

lemma creates_only_strided_slice [creates]:
  assumes "TFOpLambda \<in> S"
  shows "creates_only S (strided_slice x s)"
  unfolding strided_slice_def using assms
  by (auto intro!: creates split: list.splits)

lemma creates_only_Dense [creates]:
  assumes "Dense \<in> S"
  shows "creates_only S (Dense_call units conf n x)"
  unfolding Dense_call_def using assms by (auto intro!: creates)

lemma creates_only_Add [creates]:
  assumes "Add \<in> S"
  shows "creates_only S (Add_call n x y)"
  unfolding Add_call_def using assms by (auto intro!: creates)

lemma creates_only_batchnorm [creates]:
  assumes "BatchNormalization \<in> S" "Activation \<in> S"
  shows "creates_only S (batchnorm_with_activation inputs act zg n)"
  unfolding batchnorm_with_activation_def using assms
  by (auto intro!: creates split: option.splits)

lemma creates_only_conv2d_no_bias [creates]:
  assumes "ZeroPadding2D \<in> S" "Conv2D \<in> S"
  shows "creates_only S (conv2d_no_bias inputs filters k s padding ub n)"
  unfolding conv2d_no_bias_def ZeroPadding2D_call_def Conv2D_call_def using assms
  by (auto intro!: creates split: list.splits)


lemma creates_only_case_list3 [creates]:
  assumes "creates_only S d" and "\<And>a b c. creates_only S (f a b c)"
  shows "creates_only S (case xs of [a, b, c] \<Rightarrow> f a b c | _ \<Rightarrow> d)"
  using assms by (auto split: list.splits)

lemma creates_only_case_list2 [creates]:
  assumes "creates_only S d" and "\<And>a b. creates_only S (f a b)"
  shows "creates_only S (case xs of [a, b] \<Rightarrow> f a b | _ \<Rightarrow> d)"
  using assms by (auto split: list.splits)

lemma creates_only_case_option [creates]:
  assumes "creates_only S d" and "\<And>a. creates_only S (f a)"
  shows "creates_only S (case x of None \<Rightarrow> d | Some a \<Rightarrow> f a)"
  using assms by (auto split: option.splits)

lemma creates_only_case_sum [creates]:
  assumes "\<And>a. creates_only S (f a)" and "\<And>a. creates_only S (h a)"
  shows "creates_only S (case x of Inl a \<Rightarrow> f a | Inr a \<Rightarrow> h a)"
  using assms by (auto split: sum.splits)

lemma creates_only_scaled_dot_product_attention [creates]:
  "creates_only (- {Dropout, GlobalAveragePooling1D})
     (scaled_dot_product_attention qq kk vv key_dim attn_ratio output_dim act n)"
  unfolding scaled_dot_product_attention_def
  by (auto intro!: creates split: list.splits prod.splits)

lemma creates_only_mhsa [creates]:
  "creates_only (- {Dropout, GlobalAveragePooling1D})
     (mhsa_with_multi_head_position inputs output_dim heads key_dim attn_ratio act n)"
  unfolding mhsa_with_multi_head_position_def Let_def
  by (intro creates) simp_all

lemma creates_only_mhsa_strides [creates]:
  "creates_only (- {Dropout, GlobalAveragePooling1D})
     (mhsa_with_multi_head_position_and_strides inputs output_dim heads key_dim attn_ratio s act n)"
  unfolding mhsa_with_multi_head_position_and_strides_def Let_def
  by (intro creates) simp_all

lemma creates_only_res_mhsa [creates]:
  assumes "\<not> 0 < drop_rate"
  shows "creates_only (- {Dropout, GlobalAveragePooling1D})
     (res_mhsa_with_multi_head_position inputs embed_dim heads key_dim attn_ratio drop_rate act n)"
  unfolding res_mhsa_with_multi_head_position_def using assms
  by (intro creates) simp_all

lemma creates_only_res_mlp_block [creates]:
  assumes "\<not> 0 < drop_rate"
  shows "creates_only (- {Dropout, GlobalAveragePooling1D})
     (res_mlp_block inputs mlp_ratio drop_rate ub act n)"
  unfolding res_mlp_block_def Let_def using assms
  by (intro creates) simp_all

lemma creates_only_attention_mlp_stack [creates]:
  assumes "\<not> 0 < drop_rate"
  shows "creates_only (- {Dropout, GlobalAveragePooling1D})
     (attention_mlp_stack inputs out_channel heads depth key_dim attn_ratio mlp_ratio s drop_rate act n)"
  unfolding attention_mlp_stack_def Let_def using assms
  by (intro creates) simp_all

lemma creates_only_patch_stem [creates]:
  "creates_only (- {Dropout, GlobalAveragePooling1D}) (patch_stem inputs stem_width act n)"
  unfolding patch_stem_def
  by (intro creates) simp_all

lemma creates_only_LeViT_stages:
  "creates_only (- {Dropout, GlobalAveragePooling1D}) (LeViT_stages a)"
  unfolding LeViT_stages_def Input_layer_def Let_def
  by (intro creates) (simp_all add: split_def creates)

text \<open>
  C9. The builder does not read \<^verbatim>\<open>drop_connect_rate\<close>: two calls that differ in it
  alone give the same result. The stages are built with the drop rate \<open>0\<close>, and
  whenever they are built, the layers they add to the graph (those of the stem and of all
  residual attention and MLP blocks) include no Dropout layer.
\<close>

theorem drop_connect_rate_without_effect:
  "LeViT (a\<lparr>drop_connect_rate := r1\<rparr>) = LeViT (a\<lparr>drop_connect_rate := r2\<rparr>)
   \<and> (LeViT_stages a g = Inr (x, g') \<longrightarrow>
        (\<exists>new. g_layers g' = g_layers g @ new \<and> (\<forall>l \<in> set new. cls l \<noteq> Dropout)))"
proof -
  have "LeViT_stages (a\<lparr>drop_connect_rate := r\<rparr>) = LeViT_stages a" for r
    unfolding LeViT_stages_def by (simp cong: list.case_cong)
  moreover have "LeViT_outputs (a\<lparr>drop_connect_rate := r\<rparr>) = LeViT_outputs a" for r
    unfolding LeViT_outputs_def by (simp cong: if_cong)
  ultimately have "LeViT (a\<lparr>drop_connect_rate := r1\<rparr>) = LeViT (a\<lparr>drop_connect_rate := r2\<rparr>)"
    by (simp add: LeViT_def)
  moreover have "\<exists>new. g_layers g' = g_layers g @ new \<and> (\<forall>l \<in> set new. cls l \<noteq> Dropout)"
    if "LeViT_stages a g = Inr (x, g')"
  proof -
    from creates_only_LeViT_stages [of a] that
    obtain new where "g_layers g' = g_layers g @ new"
      "\<forall>l \<in> set new. cls l \<in> - {Dropout, GlobalAveragePooling1D}"
      unfolding creates_only_def by blast
    then show ?thesis by auto
  qed
  ultimately show ?thesis by blast
qed

theorem drop_connect_rate_without_effect_witness:
  "LeViT (small_args\<lparr>drop_connect_rate := 1 / 10\<rparr>) = LeViT (small_args\<lparr>drop_connect_rate := 1 / 2\<rparr>)
   \<and> (\<exists>x g'. LeViT_stages small_args (new_graph keras_names no_uids) = Inr (x, g')
        \<and> (\<exists>new. g_layers g' = g_layers (new_graph keras_names no_uids) @ new
              \<and> (\<forall>l \<in> set new. cls l \<noteq> Dropout)))"
proof -
  have "built (LeViT_stages small_args) (new_graph keras_names no_uids) \<noteq> None"
    by code_simp
  then obtain x g' where r: "LeViT_stages small_args (new_graph keras_names no_uids) = Inr (x, g')"
    by (auto simp: built_def split: sum.splits)
  from drop_connect_rate_without_effect
    [where a = small_args and ?r1.0 = "1 / 10" and ?r2.0 = "1 / 2"
       and g = "new_graph keras_names no_uids" and x = x and g' = g'] r
  show ?thesis by blast
qed

text \<open>
  C1 (as the code has it). With \<^verbatim>\<open>num_classes = 0\<close> the model returned has one output,
  which is the output of the last stage itself: the layers of the model are those of the
  stages, with no pooling and no head after them, and a model built in a new graph has no
  global-average-pooling layer at all.
\<close>

theorem LeViT_no_classes_output:
  assumes "num_classes a = 0"
  shows "LeViT a g =
           (case LeViT_stages a g of
              Inl e \<Rightarrow> Inl e
            | Inr ((inputs, nn), g') \<Rightarrow>
                Inr (\<lparr>m_name = model_name a, m_layers = g_layers g', m_inputs = [inputs],
                      m_outputs = [nn]\<rparr>, g'))
         \<and> (\<forall>m g'. LeViT a g = Inr (m, g') \<and> g_layers g = [] \<longrightarrow>
               \<not> has_layer_of GlobalAveragePooling1D m)"
proof -
  have eq: "LeViT a g =
           (case LeViT_stages a g of
              Inl e \<Rightarrow> Inl e
            | Inr ((inputs, nn), g') \<Rightarrow>
                Inr (\<lparr>m_name = model_name a, m_layers = g_layers g', m_inputs = [inputs],
                      m_outputs = [nn]\<rparr>, g'))"
    using assms
    by (simp add: LeViT_def LeViT_outputs_def then_do_def ret_def
        reload_model_weights_with_mismatch_def split: sum.splits prod.splits)
  have "\<not> has_layer_of GlobalAveragePooling1D m" if "LeViT a g = Inr (m, g')" "g_layers g = []" for m g'
  proof -
    from that(1) eq obtain inputs nn where s: "LeViT_stages a g = Inr ((inputs, nn), g')"
      and m: "m_layers m = g_layers g'"
      by (auto split: sum.splits prod.splits)
    from creates_only_LeViT_stages [of a] s
    obtain new where "g_layers g' = g_layers g @ new"
      "\<forall>l \<in> set new. cls l \<in> - {Dropout, GlobalAveragePooling1D}"
      unfolding creates_only_def by blast
    with that(2) m show ?thesis by (auto simp: has_layer_of_def)
  qed
  with eq show ?thesis by blast
qed

theorem LeViT_no_classes_output_witness:
  "num_classes small_args = 0
   \<and> (\<exists>m g'. LeViT small_args (new_graph keras_names no_uids) = Inr (m, g')
        \<and> g_layers (new_graph keras_names no_uids) = []
        \<and> \<not> has_layer_of GlobalAveragePooling1D m)"
proof -
  have h: "num_classes small_args = 0" "g_layers (new_graph keras_names no_uids) = []"
    by (simp_all add: small_args_def new_graph_def)
  have "built (LeViT small_args) (new_graph keras_names no_uids) \<noteq> None"
    by code_simp
  then obtain m g' where r: "LeViT small_args (new_graph keras_names no_uids) = Inr (m, g')"
    by (auto simp: built_def split: sum.splits)
  from LeViT_no_classes_output [OF h(1), of "new_graph keras_names no_uids"] r h
  show ?thesis by blast
qed

text \<open>
  C1 (as the specification states it) fails on the small configuration, which has no
  classes: the output of the model is the output of the addition that ends the last
  block, one token of eight channels, and the model has no pooling layer.
\<close>

theorem LeViT_no_classes_not_pooled_counterexample:
  "num_classes small_args = 0
   \<and> map_option output_classes (built (LeViT small_args) (new_graph keras_names no_uids)) = Some [Add]
   \<and> map_option output_shapes (built (LeViT small_args) (new_graph keras_names no_uids)) = Some [[1, 8]]
   \<and> map_option (has_layer_of GlobalAveragePooling1D)
        (built (LeViT small_args) (new_graph keras_names no_uids)) = Some False"
  by code_simp

section \<open>Properties of the sharpness-aware training step\<close>

text \<open>\<open>ilog2\<close> is the integer part of the binary logarithm.\<close>

lemma bitlen_powi_bounds:
  assumes "0 < p"
  shows "(2::rat) powi (bitlen p - 1) \<le> of_int p \<and> of_int p < (2::rat) powi (bitlen p)"
proof -
  from bitlen_bounds [OF assms]
  have b: "2 ^ nat (bitlen p - 1) \<le> p" "p < 2 ^ nat (bitlen p)" by simp_all
  have pos: "0 < bitlen p" using assms by (auto simp: bitlen_alt_def)
  have "(of_int (2 ^ nat (bitlen p - 1)) :: rat) \<le> of_int p"
    using b(1) by (simp only: of_int_le_iff)
  then have lo: "(2::rat) ^ nat (bitlen p - 1) \<le> of_int p" by simp
  have "(of_int p :: rat) < of_int (2 ^ nat (bitlen p))"
    using b(2) by (simp only: of_int_less_iff)
  then have hi: "of_int p < (2::rat) ^ nat (bitlen p)" by simp
  have "(2::rat) powi (bitlen p - 1) = 2 ^ nat (bitlen p - 1)"
    using pos by (simp add: power_int_def)
  moreover have "(2::rat) powi (bitlen p) = 2 ^ nat (bitlen p)"
    using pos by (simp add: power_int_def)
  ultimately show ?thesis using lo hi by simp
qed

lemma ilog2_bounds:
  assumes "x \<noteq> 0"
  shows "2 powi (ilog2 x) \<le> \<bar>x\<bar> \<and> \<bar>x\<bar> < 2 powi (ilog2 x + 1)"
proof -
  obtain p q where pq: "quotient_of \<bar>x\<bar> = (p, q)" by (cases "quotient_of \<bar>x\<bar>")
  then have q: "0 < q" and x: "\<bar>x\<bar> = of_int p / of_int q"
    by (auto dest: quotient_of_denom_pos quotient_of_div)
  from assms have "0 < \<bar>x\<bar>" by simp
  with x q have p: "0 < p" by (simp add: zero_less_divide_iff)
  let ?k = "bitlen p - bitlen q"
  note bp = bitlen_powi_bounds [OF p] and bq = bitlen_powi_bounds [OF q]
  have qpos: "(0::rat) < of_int q" using q by simp
  have "\<bar>x\<bar> < 2 powi (bitlen p) / 2 powi (bitlen q - 1)"
    unfolding x using bp bq p
    by (intro frac_less) simp_all
  also have "\<dots> = 2 powi (bitlen p - (bitlen q - 1))"
    by (simp add: power_int_diff [symmetric])
  also have "bitlen p - (bitlen q - 1) = ?k + 1"
    by simp
  finally have hi: "\<bar>x\<bar> < 2 powi (?k + 1)" .
  have "2 powi (bitlen p - 1) / 2 powi (bitlen q) \<le> \<bar>x\<bar>"
    unfolding x using bp bq p q
    by (intro frac_le) simp_all
  moreover have "(2::rat) powi (bitlen p - 1) / 2 powi (bitlen q) = 2 powi (bitlen p - 1 - bitlen q)"
    by (simp add: power_int_diff [symmetric])
  moreover have "bitlen p - 1 - bitlen q = ?k - 1"
    by simp
  ultimately have lo: "2 powi (?k - 1) \<le> \<bar>x\<bar>" by simp
  show ?thesis
  proof (cases "2 powi ?k \<le> \<bar>x\<bar>")
    case True
    then show ?thesis using hi by (simp add: ilog2_def pq)
  next
    case False
    then show ?thesis using lo by (simp add: ilog2_def pq)
  qed
qed

text \<open>\<open>isqrt\<close> is the integer part of the square root.\<close>

lemma isqrt_bounds:
  "0 \<le> n \<Longrightarrow> 0 \<le> isqrt n \<and> isqrt n * isqrt n \<le> n \<and> n < (isqrt n + 1) * (isqrt n + 1)"
proof (induction n rule: isqrt.induct)
  case (1 n)
  show ?case
  proof (cases "n < 4")
    case True
    with "1.prems" show ?thesis
      by (subst (1 2 3 4 5) isqrt.simps) auto
  next
    case False
    define r where "r = isqrt (n div 4)"
    from False "1.prems" have "0 \<le> n div 4" by simp
    with "1.IH" False have ih: "0 \<le> r" "r * r \<le> n div 4" "n div 4 < (r + 1) * (r + 1)"
      unfolding r_def by simp_all
    have lo: "(2 * r) * (2 * r) \<le> n"
    proof -
      have "4 * (r * r) \<le> 4 * (n div 4)" using ih(2) by simp
      also have "\<dots> \<le> n" by simp
      finally show ?thesis by (simp add: algebra_simps)
    qed
    have hi: "n < (2 * r + 2) * (2 * r + 2)"
    proof -
      have "n div 4 + 1 \<le> (r + 1) * (r + 1)" using ih(3) by simp
      then have "4 * (n div 4) + 4 \<le> 4 * ((r + 1) * (r + 1))" by simp
      moreover have "n < 4 * (n div 4) + 4"
        by (simp add: algebra_simps)
      ultimately show ?thesis by (simp add: algebra_simps)
    qed
    have eq: "isqrt n = (if (2 * r + 1) * (2 * r + 1) \<le> n then 2 * r + 1 else 2 * r)"
      using False by (subst isqrt.simps) (simp add: r_def Let_def)
    show ?thesis
    proof (cases "(2 * r + 1) * (2 * r + 1) \<le> n")
      case True
      with eq have "isqrt n = 2 * r + 1" by simp
      with True hi ih(1) show ?thesis by (simp add: algebra_simps)
    next
      case False
      with eq have "isqrt n = 2 * r" by simp
      with False lo ih(1) show ?thesis by (simp add: algebra_simps)
    qed
  qed
qed

text \<open>The two loops.\<close>

lemma perturb_ok:
  assumes "length gs = length vs"
  shows "perturb A scale vs (map Some gs) =
    (map2 (t_add A) vs (map (\<lambda>g. t_mul A g scale) gs), map (\<lambda>g. t_mul A g scale) gs, None)"
  using assms by (induction vs gs rule: list_induct2') (simp_all add: Let_def)

lemma perturb_None:
  assumes "length gs = length vs"
  shows "perturb A scale (vs @ v # ws) (map Some gs @ None # hs) =
    (map2 (t_add A) vs (map (\<lambda>g. t_mul A g scale) gs) @ v # ws,
     map (\<lambda>g. t_mul A g scale) gs, Some ValueError)"
  using assms by (induction vs gs rule: list_induct2') (simp_all add: Let_def)

lemma unperturb_perturbed:
  assumes "length es = length vs"
  shows "unperturb A (map2 (t_add A) vs es) es = map2 (\<lambda>v e. t_sub A (t_add A v e) e) vs es"
  using assms by (induction vs es rule: list_induct2') simp_all

lemma cancel_restores:
  assumes "\<forall>v e. t_sub A (t_add A v e) e = v" and "length es = length vs"
  shows "map2 (\<lambda>v e. t_sub A (t_add A v e) e) vs es = vs"
  using assms(2) by (induction vs es rule: list_induct2') (simp_all add: assms(1))

text \<open>
  A step in which the first pass has no gradient for some trainable variable raises a
  ValueError and leaves the variables before that one perturbed.
\<close>

lemma train_step_None_gradient:
  assumes d: "data = [x, y] \<and> sample_weight = None \<or> data = [x, y, w] \<and> sample_weight = Some w"
    and vars: "trainable_variables self = vs @ v # ws"
    and fb1: "forward_backward E x y sample_weight (trainable_variables self) (rest self)
                = (y_pred, map Some gs @ None # hs, s1)"
    and len: "length gs = length vs"
  shows "train_step A E self data =
    Inl (ValueError,
         self\<lparr>trainable_variables :=
                map2 (t_add A) vs
                  (map (\<lambda>g. t_mul A g
                     (t_div A (rho self) (t_add A (global_norm A (map Some gs @ None # hs)) (eps A)))) gs)
                @ v # ws,
              rest := s1\<rparr>)"
proof -
  have un: "(case data of [x, y, sample_weight] \<Rightarrow> Inr (x, y, Some sample_weight)
            | [x, y] \<Rightarrow> Inr (x, y, None) | _ \<Rightarrow> Inl ValueError) = Inr (x, y, sample_weight)"
    using d by auto
  show ?thesis
    unfolding train_step_def un using fb1
    by (simp add: Let_def vars perturb_None [OF len])
qed

text \<open>
  C2 (as the code has it). On a batch of two or three components, when the first pass
  gives a gradient for every trainable variable, one step computes the first gradients
  \<open>g1\<close>, adds \<open>e_w = g1 * (rho / (global_norm g1 + 1e-12))\<close> to every variable,
  computes the second gradients \<open>g2\<close> at the perturbed variables, subtracts the same
  \<open>e_w\<close> from every variable, and hands \<open>g2\<close> and the variables so restored,
  \<open>(v + e_w) - e_w\<close> in the arithmetic of the variables, to the optimizer. The compiled
  metrics are then updated with the first predictions, and the metrics returned are read
  from the state that the two passes, the optimizer and that update leave, one after the
  other. In an arithmetic where subtracting cancels adding, the variables restored are the
  original ones.
\<close>

theorem sam_train_step:
  assumes d: "data = [x, y] \<and> sample_weight = None \<or> data = [x, y, w] \<and> sample_weight = Some w"
    and fb1: "forward_backward E x y sample_weight (trainable_variables self) (rest self)
                = (y_pred, map Some g1, s1)"
    and len: "length g1 = length (trainable_variables self)"
    and ew: "e_w = map (\<lambda>g. t_mul A g
                (t_div A (rho self) (t_add A (global_norm A (map Some g1)) (eps A)))) g1"
    and fb2: "forward_backward E x y sample_weight
                (map2 (t_add A) (trainable_variables self) e_w) s1 = (y_pred_adv, g2, s2)"
    and re: "restored = map2 (\<lambda>v e. t_sub A (t_add A v e) e) (trainable_variables self) e_w"
    and opt: "apply_gradients E g2 restored s2 = (updated, s3)"
  shows "train_step A E self data =
           Inr (metric_results E (update_state E y y_pred sample_weight s3),
                self\<lparr>trainable_variables := updated,
                     rest := update_state E y y_pred sample_weight s3\<rparr>)
         \<and> ((\<forall>v e. t_sub A (t_add A v e) e = v) \<longrightarrow> restored = trainable_variables self)"
proof -
  let ?scale = "t_div A (rho self) (t_add A (global_norm A (map Some g1)) (eps A))"
  have len': "length e_w = length (trainable_variables self)"
    using len unfolding ew by simp
  have un: "(case data of [x, y, sample_weight] \<Rightarrow> Inr (x, y, Some sample_weight)
            | [x, y] \<Rightarrow> Inr (x, y, None) | _ \<Rightarrow> Inl ValueError) = Inr (x, y, sample_weight)"
    using d by auto
  have p: "perturb A ?scale (trainable_variables self) (map Some g1) =
      (map2 (t_add A) (trainable_variables self) e_w, e_w, None)"
    unfolding ew using len by (rule perturb_ok)
  have u: "unperturb A (map2 (t_add A) (trainable_variables self) e_w) e_w = restored"
    unfolding re using len' by (rule unperturb_perturbed)
  have "train_step A E self data =
           Inr (metric_results E (update_state E y y_pred sample_weight s3),
                self\<lparr>trainable_variables := updated,
                     rest := update_state E y y_pred sample_weight s3\<rparr>)"
    unfolding train_step_def un by (simp add: fb1 Let_def p fb2 u opt)
  moreover have "restored = trainable_variables self" if "\<forall>v e. t_sub A (t_add A v e) e = v"
    unfolding re using that len' by (rule cancel_restores)
  ultimately show ?thesis by blast
qed

theorem sam_train_step_witness:
  "forward_backward (linear_engine real_arith 0 1 (1 / 10)) 1 0 None
      (trainable_variables (linear_model 0 (5 / 100) [1 :: real]))
      (rest (linear_model 0 (5 / 100) [1 :: real]))
     = (1, map Some [1],
        \<lparr>loss_total = 1, loss_count = 1, metric_total = 0, metric_count = 0\<rparr>)
   \<and> length [1 :: real] = length (trainable_variables (linear_model 0 (5 / 100) [1 :: real]))
   \<and> train_step real_arith (linear_engine real_arith 0 1 (1 / 10)) (linear_model 0 (5 / 100) [1]) [1, 0]
     = Inr ([(''loss'', (1 + (1 + (5 / 100) / (1 + 1 / 10 ^ 12))) / 2), (''mean_error'', 1)],
            \<lparr>rho = 5 / 100, trainable_variables = [9 / 10],
              rest = \<lparr>loss_total = 1 + (1 + (5 / 100) / (1 + 1 / 10 ^ 12)), loss_count = 2,
                       metric_total = 1, metric_count = 1\<rparr>\<rparr>)
   \<and> t_sub real_arith (t_add real_arith 1 ((5 / 100) / (1 + 1 / 10 ^ 12))) ((5 / 100) / (1 + 1 / 10 ^ 12)) = 1"
proof -
  let ?E = "linear_engine real_arith 0 1 (1 / 10 :: real)"
  let ?M = "linear_model 0 (5 / 100) [1 :: real]"
  let ?e = "(5 / 100) / (1 + 1 / 10 ^ 12) :: real"
  let ?s1 = "\<lparr>loss_total = 1 :: real, loss_count = 1, metric_total = 0, metric_count = 0\<rparr>"
  let ?s2 = "\<lparr>loss_total = 1 + (1 + ?e), loss_count = 2, metric_total = 0, metric_count = 0\<rparr>"
  have n: "global_norm real_arith (map Some [1]) = 1"
    by (simp add: real_arith_def)
  have h1: "[1, 0] = [1, 0] \<and> None = None \<or> [1, 0] = [1, 0, 0] \<and> None = Some (0::real)"
    by simp
  have h2: "forward_backward ?E 1 0 None (trainable_variables ?M) (rest ?M) = (1, map Some [1], ?s1)"
    by (simp add: linear_engine_def linear_model_def real_arith_def)
  have h3: "length [1 :: real] = length (trainable_variables ?M)"
    by (simp add: linear_model_def)
  have h4: "[?e] = map (\<lambda>g. t_mul real_arith g
                (t_div real_arith (rho ?M) (t_add real_arith (global_norm real_arith (map Some [1])) (eps real_arith)))) [1]"
    unfolding n by (simp add: real_arith_def linear_model_def)
  have h5: "forward_backward ?E 1 0 None (map2 (t_add real_arith) (trainable_variables ?M) [?e]) ?s1
      = (1 + ?e, [Some 1], ?s2)"
    by (simp add: linear_engine_def linear_model_def real_arith_def)
  have h6: "[1] = map2 (\<lambda>v e. t_sub real_arith (t_add real_arith v e) e) (trainable_variables ?M) [?e]"
    by (simp add: linear_model_def real_arith_def)
  have h7: "apply_gradients ?E [Some 1] [1] ?s2 = ([9 / 10], ?s2)"
    by (simp add: linear_engine_def real_arith_def)
  have "train_step real_arith ?E ?M [1, 0]
     = Inr ([(''loss'', (1 + (1 + ?e)) / 2), (''mean_error'', 1)],
            \<lparr>rho = 5 / 100, trainable_variables = [9 / 10],
              rest = \<lparr>loss_total = 1 + (1 + ?e), loss_count = 2,
                       metric_total = 1, metric_count = 1\<rparr>\<rparr>)"
    using sam_train_step [OF h1 h2 h3 h4 h5 h6 h7]
    by (simp add: linear_engine_def linear_model_def real_arith_def)
  moreover have "t_sub real_arith (t_add real_arith 1 ?e) ?e = 1"
    by (simp add: real_arith_def)
  ultimately show ?thesis using h2 h3 by blast
qed

text \<open>
  C2 (as the specification states it) fails in two ways, shown by two steps of the
  linear model in binary32 with \<open>rho = 0.05\<close>, the learning rate \<open>0\<close> and the batch
  \<open>x = 1\<close>, \<open>y = 0\<close>.

  \<^item> At the single weight \<open>1\<close>, \<open>e_w\<close> is \<open>0.05\<close> (in binary32,
    \<open>13421773 / 2\<^sup>2\<^sup>8\<close>); \<open>1 + e_w\<close> rounds down to \<open>4404019 / 2\<^sup>2\<^sup>2\<close>, and
    subtracting \<open>e_w\<close> again gives \<open>1 - 2\<^sup>-\<^sup>2\<^sup>4\<close>. The optimizer, which changes nothing,
    leaves the weight at that value, not at \<open>1\<close>. The loss returned is
    \<open>8598323 / 2\<^sup>2\<^sup>3\<close>, the mean of the loss \<open>1\<close> of the first predictions and the
    loss \<open>4404019 / 2\<^sup>2\<^sup>2\<close> of the second.
  \<^item> With a second trainable variable, of value \<open>2\<close>, on which the loss does not
    depend, the step raises a ValueError at that variable and leaves the first one at
    its perturbed value \<open>4404019 / 2\<^sup>2\<^sup>2\<close>; there is no second pass and no update.
\<close>

theorem sam_train_step_float32_counterexample:
  "train_step float32_arith (linear_engine float32_arith (Some 0) (Some 1) (Some 0))
     (linear_model (Some 0) (binary32 (5 / 100)) [Some 1]) [Some 1, Some 0]
   = Inr ([(''loss'', Some (8598323 / 8388608)), (''mean_error'', Some 1)],
          \<lparr>rho = Some (13421773 / 268435456),
            trainable_variables = [Some (16777215 / 16777216)],
            rest = \<lparr>loss_total = Some (8598323 / 4194304), loss_count = Some 2,
                     metric_total = Some 1, metric_count = Some 1\<rparr>\<rparr>)
   \<and> train_step float32_arith (linear_engine float32_arith (Some 0) (Some 1) (Some 0))
     (linear_model (Some 0) (binary32 (5 / 100)) [Some 1, Some 2]) [Some 1, Some 0]
   = Inl (ValueError,
          \<lparr>rho = Some (13421773 / 268435456),
            trainable_variables = [Some (4404019 / 4194304), Some 2],
            rest = \<lparr>loss_total = Some 1, loss_count = Some 1,
                     metric_total = Some 0, metric_count = Some 0\<rparr>\<rparr>)"
  by code_simp

end
